theory Spec2Isabelle
  imports Complex_Main "HOL-Library.Word"
begin

section \<open>Arrays and image geometry\<close>

text \<open>
  The program is one function, \<^verbatim>\<open>main\<close> of \<^verbatim>\<open>VolumeMaskAndSlice.cxx\<close>. It works on
  fixed-size C arrays (\<^verbatim>\<open>double origin[3], spacing[3]; int dims[3], extent[6]\<close>), modelled
  as tuples with an index function. A \<^verbatim>\<open>double\<close> is idealised as a \<open>real\<close>: the source only
  adds, multiplies and compares them, and rounding is not modelled.
  An \<^verbatim>\<open>int\<close> is an \<open>int\<close>; signed overflow is undefined in C++ and is not modelled.
\<close>

type_synonym 'a array3 = "'a \<times> 'a \<times> 'a"
type_synonym 'a array6 = "'a \<times> 'a \<times> 'a \<times> 'a \<times> 'a \<times> 'a"

fun at3 :: "'a array3 \<Rightarrow> nat \<Rightarrow> 'a" where
  "at3 (a0, a1, a2) i = (if i = 0 then a0 else if i = 1 then a1 else a2)"

fun at6 :: "'a array6 \<Rightarrow> nat \<Rightarrow> 'a" where
  "at6 (a0, a1, a2, a3, a4, a5) i =
     (if i = 0 then a0 else if i = 1 then a1 else if i = 2 then a2
      else if i = 3 then a3 else if i = 4 then a4 else a5)"

datatype vtk_scalar_type =
  VTK_VOID | VTK_CHAR | VTK_UNSIGNED_CHAR | VTK_SHORT | VTK_UNSIGNED_SHORT
  | VTK_INT | VTK_FLOAT | VTK_DOUBLE

text \<open>
  Modelled from the spec: the toolkit's image object, "a 3D scalar grid (dimensions, origin,
  spacing, extent, voxel type)". The class \<^verbatim>\<open>vtkImageData\<close> and its methods belong to the
  toolkit, not to the repository; the methods below do what the toolkit documents for them.
  The dimensions are not stored: the toolkit derives them from the extent.
\<close>

record 's vtkImageData =
  Origin :: "real array3"
  Spacing :: "real array3"
  Extent :: "int array6"
  ScalarType :: vtk_scalar_type
  NumberOfScalarComponents :: nat
  Scalars :: "'s list"

definition GetDimensions :: "'s vtkImageData \<Rightarrow> int array3" where
  "GetDimensions img =
     (at6 (Extent img) 1 - at6 (Extent img) 0 + 1,
      at6 (Extent img) 3 - at6 (Extent img) 2 + 1,
      at6 (Extent img) 5 - at6 (Extent img) 4 + 1)"

definition SetExtent :: "int array6 \<Rightarrow> 's vtkImageData \<Rightarrow> 's vtkImageData" where
  "SetExtent e img = img\<lparr>Extent := e\<rparr>"

definition SetDimensions :: "int array3 \<Rightarrow> 's vtkImageData \<Rightarrow> 's vtkImageData" where
  "SetDimensions d img = SetExtent (0, at3 d 0 - 1, 0, at3 d 1 - 1, 0, at3 d 2 - 1) img"

definition SetOrigin :: "real array3 \<Rightarrow> 's vtkImageData \<Rightarrow> 's vtkImageData" where
  "SetOrigin p img = img\<lparr>Origin := p\<rparr>"

definition SetSpacing :: "real array3 \<Rightarrow> 's vtkImageData \<Rightarrow> 's vtkImageData" where
  "SetSpacing s img = img\<lparr>Spacing := s\<rparr>"

definition NumberOfPoints :: "'s vtkImageData \<Rightarrow> nat" where
  "NumberOfPoints img =
     nat (at3 (GetDimensions img) 0 * at3 (GetDimensions img) 1 * at3 (GetDimensions img) 2)"

text \<open>
  \<^verbatim>\<open>AllocateScalars(type, n)\<close> gives the image a buffer of \<open>n\<close> values per point of its
  extent. The new memory is not initialised: its content is whatever \<open>fresh\<close> says.
\<close>

definition AllocateScalars ::
  "vtk_scalar_type \<Rightarrow> nat \<Rightarrow> (nat \<Rightarrow> 's) \<Rightarrow> 's vtkImageData \<Rightarrow> 's vtkImageData" where
  "AllocateScalars ty n fresh img =
     img\<lparr>ScalarType := ty, NumberOfScalarComponents := n,
         Scalars := map fresh [0..<NumberOfPoints img * n]\<rparr>"

text \<open>
  \<^verbatim>\<open>GetScalarPointer(x, y, z)\<close> is the address of the voxel with structured coordinates
  \<open>(x, y, z)\<close>, as an offset into the buffer; for coordinates outside the extent the
  toolkit reports an error and returns the null pointer (\<open>None\<close>).
\<close>

definition GetScalarPointer :: "int array3 \<Rightarrow> 's vtkImageData \<Rightarrow> nat option" where
  "GetScalarPointer c img =
     (if at3 c 0 < at6 (Extent img) 0 \<or> at6 (Extent img) 1 < at3 c 0
         \<or> at3 c 1 < at6 (Extent img) 2 \<or> at6 (Extent img) 3 < at3 c 1
         \<or> at3 c 2 < at6 (Extent img) 4 \<or> at6 (Extent img) 5 < at3 c 2
      then None
      else Some (nat ((at3 c 0 - at6 (Extent img) 0)
                    + (at3 c 1 - at6 (Extent img) 2) * at3 (GetDimensions img) 0
                    + (at3 c 2 - at6 (Extent img) 4) * at3 (GetDimensions img) 0
                        * at3 (GetDimensions img) 1)
                 * NumberOfScalarComponents img))"

text \<open>The physical position of the point with structured coordinates \<open>c\<close>.\<close>

definition GetPoint :: "'s vtkImageData \<Rightarrow> int array3 \<Rightarrow> real array3" where
  "GetPoint img c =
     (at3 (Origin img) 0 + at3 (Spacing img) 0 * of_int (at3 c 0),
      at3 (Origin img) 1 + at3 (Spacing img) 1 * of_int (at3 c 1),
      at3 (Origin img) 2 + at3 (Spacing img) 2 * of_int (at3 c 2))"

section \<open>The cylinder\<close>

text \<open>
  Modelled from the spec: the toolkit's cylinder, an "\<^verbatim>\<open>x^2 + z^2 - r^2\<close>-style implicit
  function relative to a center point and radius". \<^verbatim>\<open>vtkCylinder\<close> is toolkit code; its
  axis is the y axis through the center, so the y coordinate of the point plays no part.
\<close>

record vtkCylinder =
  Center :: "real array3"
  Radius :: real

definition EvaluateFunction :: "vtkCylinder \<Rightarrow> real array3 \<Rightarrow> real" where
  "EvaluateFunction cyl p =
     (at3 p 0 - at3 (Center cyl) 0) * (at3 p 0 - at3 (Center cyl) 0)
     + (at3 p 2 - at3 (Center cyl) 2) * (at3 p 2 - at3 (Center cyl) 2)
     - Radius cyl * Radius cyl"

section \<open>The log of a run\<close>

text \<open>
  The objects \<^verbatim>\<open>main\<close> creates, under their names in the source; \<open>reader_GetOutput\<close> is
  the image \<^verbatim>\<open>reader->GetOutput()\<close> and \<open>slice_GetMapper\<close> the mapper
  \<^verbatim>\<open>slice->GetMapper()\<close>.
\<close>

datatype object =
  reader | reader_GetOutput | mask | cylinder
  | reslice | reslicedVolume | reslicedMask | shiftScale | imMath
  | volumeMapper | volumeProperty | ctf | pwf | volume | lut
  | slice | slice_GetMapper | outline | outlineMapper | outlineActor
  | renWin | iren | style | ren1 | ren2

text \<open>
  What a run does, in order. \<open>Call obj m args\<close> is a statement \<^verbatim>\<open>obj->m(...)\<close> of
  \<^verbatim>\<open>main\<close>; \<open>args\<close> are the toolkit calls the statement makes first, in its receiver and
  argument expressions, as pairs of object and method
  (\<^verbatim>\<open>reslice->SetInputConnection(reader->GetOutputPort())\<close> is
  \<open>Call reslice ''SetInputConnection'' [(reader, ''GetOutputPort'')]\<close>). The
  \<^verbatim>\<open>GetPointer()\<close> and \<^verbatim>\<open>operator->\<close> of the \<^verbatim>\<open>vtkNew\<close> handles are not calls on the
  objects and are not logged. \<open>Evaluate p\<close> is a call of the cylinder's implicit function
  at \<open>p\<close>, and \<open>Store k v\<close> a write of the byte \<open>v\<close> at offset \<open>k\<close> of the mask's buffer.
\<close>

datatype event =
  Call object string "(object \<times> string) list"
  | Evaluate "real array3"
  | Store nat "8 word"

definition calls_on :: "object \<Rightarrow> string list \<Rightarrow> event list" where
  "calls_on obj ms = map (\<lambda>m. Call obj m []) ms"

section \<open>Filling the mask\<close>

datatype fault = Null_pointer_write | Out_of_bounds_write nat

text \<open>
  The state of the triple loop: the \<^verbatim>\<open>char *ptr\<close> as an offset into the mask's buffer
  (\<open>None\<close> is the null pointer), the buffer, and what the loop has done so far: the
  points handed to the implicit function, the offsets written, and the log of both.
\<close>

record fill_state =
  ptr :: "nat option"
  bytes :: "8 word list"
  evaluated :: "real array3 list"
  stored :: "nat list"
  log :: "event list"

text \<open>\<^verbatim>\<open>*ptr++ = v\<close>; a write through the null pointer or past the buffer is a fault.\<close>

definition store :: "8 word \<Rightarrow> fill_state \<Rightarrow> fault + fill_state" where
  "store v st =
     (case ptr st of
        None \<Rightarrow> Inl Null_pointer_write
      | Some p \<Rightarrow>
          if p < length (bytes st)
          then Inr (st\<lparr>ptr := Some (p + 1), bytes := (bytes st)[p := v],
                      stored := stored st @ [p], log := log st @ [Store p v]\<rparr>)
          else Inl (Out_of_bounds_write p))"

text \<open>
  The loop body. \<^verbatim>\<open>cylinder->vtkImplicitFunction::EvaluateFunction(x,z,y)\<close> converts the
  three \<^verbatim>\<open>int\<close>s to \<^verbatim>\<open>double\<close>, packs them in this order and evaluates \<open>f\<close> there.
\<close>

definition mask_voxel ::
  "(real array3 \<Rightarrow> real) \<Rightarrow> int \<Rightarrow> int \<Rightarrow> int \<Rightarrow> fill_state \<Rightarrow> fault + fill_state" where
  "mask_voxel f x y z st =
     (let p = (of_int x, of_int z, of_int y);
          st' = st\<lparr>evaluated := evaluated st @ [p], log := log st @ [Evaluate p]\<rparr>
      in if f p > 0 then store 0 st' else store 255 st')"

text \<open>\<^verbatim>\<open>for (int i = 0; i < n; ++i) body\<close>, stopping at the first fault.\<close>

fun for_each :: "'a list \<Rightarrow> ('a \<Rightarrow> 's \<Rightarrow> fault + 's) \<Rightarrow> 's \<Rightarrow> fault + 's" where
  "for_each [] body st = Inr st"
| "for_each (i # is) body st =
     (case body i st of Inl e \<Rightarrow> Inl e | Inr st' \<Rightarrow> for_each is body st')"

definition below :: "int \<Rightarrow> int list" where
  "below n = [0..n - 1]"

definition fill_mask ::
  "(real array3 \<Rightarrow> real) \<Rightarrow> int array3 \<Rightarrow> fill_state \<Rightarrow> fault + fill_state" where
  "fill_mask f dims st =
     for_each (below (at3 dims 2)) (\<lambda>z.
       for_each (below (at3 dims 1)) (\<lambda>y.
         for_each (below (at3 dims 0)) (\<lambda>x.
           mask_voxel f x y z))) st"

section \<open>The program\<close>

text \<open>
  What \<^verbatim>\<open>main\<close> can observe of its surroundings: the process environment, the files
  (the image a file holds, \<open>None\<close> for a file that is missing or unreadable) and the
  content of memory it allocates but has not written yet.
\<close>

record world =
  environ :: "(string \<times> string) list"
  file_system :: "string \<Rightarrow> real vtkImageData option"
  uninitialised :: "nat \<Rightarrow> 8 word"

text \<open>A new \<^verbatim>\<open>vtkImageData\<close>: no points, no scalars.\<close>

definition vtkNew_vtkImageData :: "'s vtkImageData" where
  "vtkNew_vtkImageData =
     \<lparr>Origin = (0, 0, 0), Spacing = (1, 1, 1), Extent = (0, - 1, 0, - 1, 0, - 1),
      ScalarType = VTK_VOID, NumberOfScalarComponents = 1, Scalars = []\<rparr>"

text \<open>
  Modelled from the spec: the reader, "whatever the underlying library does internally
  (e.g., silent failure ... on unreadable files)". \<^verbatim>\<open>vtkXMLImageDataReader\<close> is toolkit
  code: after \<^verbatim>\<open>Update()\<close> its output is the image of the file, and an empty image when
  the file cannot be read.
\<close>

definition reader_Update :: "(string \<Rightarrow> real vtkImageData option) \<Rightarrow> string \<Rightarrow> real vtkImageData" where
  "reader_Update fs name = (case fs name of None \<Rightarrow> vtkNew_vtkImageData | Some img \<Rightarrow> img)"

text \<open>Lines 46-51: the center of the volume.\<close>

definition volume_center :: "real array3 \<Rightarrow> real array3 \<Rightarrow> int array6 \<Rightarrow> real array3" where
  "volume_center origin spacing extent =
     (let c = (\<lambda>i. at3 origin i
                 + at3 spacing i * 0.5 * of_int (at6 extent (2 * i) + at6 extent (2 * i + 1)))
      in (c 0, c 1, c 2))"

text \<open>Lines 53-59: the mask image.\<close>

definition create_mask ::
  "real array3 \<Rightarrow> int array3 \<Rightarrow> int array6 \<Rightarrow> (nat \<Rightarrow> 8 word) \<Rightarrow> 8 word vtkImageData" where
  "create_mask spacing dims extent fresh =
     AllocateScalars VTK_UNSIGNED_CHAR 1 fresh
       (SetExtent extent
         (SetSpacing spacing
           (SetOrigin (of_int (at6 extent 0), of_int (at6 extent 2), of_int (at6 extent 4))
             (SetDimensions dims vtkNew_vtkImageData))))"

text \<open>Line 63.\<close>

definition mask_radius :: "int array3 \<Rightarrow> real" where
  "mask_radius dims = of_int (at3 dims 0) / 2.0 - 50"

text \<open>Lines 34-44.\<close>

definition load_calls :: "event list" where
  "load_calls =
     calls_on reader [''SetFileName'', ''Update'']
     @ [Call reader_GetOutput ''GetOrigin'' [(reader, ''GetOutput'')],
        Call reader_GetOutput ''GetSpacing'' [(reader, ''GetOutput'')],
        Call reader_GetOutput ''GetDimensions'' [(reader, ''GetOutput'')],
        Call reader_GetOutput ''GetExtent'' [(reader, ''GetOutput'')]]"

text \<open>Lines 54-69; the calls of the loop, lines 75-92, follow them.\<close>

definition mask_calls :: "event list" where
  "mask_calls =
     calls_on mask [''SetDimensions'', ''SetOrigin'', ''SetSpacing'', ''SetExtent'',
                    ''AllocateScalars'', ''GetScalarPointer'']
     @ calls_on cylinder [''SetCenter'', ''SetRadius'']"

text \<open>Lines 95-129.\<close>

definition chain_calls :: "event list" where
  "chain_calls =
     [Call reslice ''SetInputConnection'' [(reader, ''GetOutputPort'')]]
     @ calls_on reslice [''SetOutputDimensionality'', ''SetResliceAxesDirectionCosines'',
                         ''SetResliceAxesOrigin'', ''SetInterpolationModeToLinear'', ''Update'']
     @ [Call reslicedVolume ''DeepCopy'' [(reslice, ''GetOutput'')]]
     @ calls_on reslice [''SetInputData'', ''Update'']
     @ [Call reslicedMask ''DeepCopy'' [(reslice, ''GetOutput'')]]
     @ calls_on shiftScale [''SetInputData'', ''SetShift'', ''SetScale'']
     @ [Call shiftScale ''SetOutputScalarType'' [(reslicedVolume, ''GetScalarType'')]]
     @ calls_on shiftScale [''Update'']
     @ calls_on imMath [''SetInput1Data'']
     @ [Call imMath ''SetInput2Data'' [(shiftScale, ''GetOutput'')]]
     @ calls_on imMath [''SetOperationToMultiply'']"

text \<open>Lines 132-163.\<close>

definition mapper_calls :: "event list" where
  "mapper_calls =
     [Call volumeMapper ''SetInputConnection'' [(reader, ''GetOutputPort'')]]
     @ calls_on volumeMapper [''SetMaskInput'', ''SetMaskTypeToBinary'']
     @ calls_on ctf (replicate 7 ''AddRGBPoint'')
     @ calls_on pwf (replicate 2 ''AddPoint'')
     @ calls_on volumeProperty [''SetColor'', ''SetScalarOpacity'']
     @ calls_on volume [''SetMapper'', ''SetProperty'']
     @ [Call lut ''SetInputConnection'' [(imMath, ''GetOutputPort'')]]
     @ calls_on lut [''SetLookupTable'']"

text \<open>Lines 165-200.\<close>

definition renderer_calls :: "event list" where
  "renderer_calls =
     [Call slice_GetMapper ''SetInputConnection''
        [(slice, ''GetMapper''), (lut, ''GetOutputPort'')]]
     @ [Call outline ''SetInputConnection'' [(reader, ''GetOutputPort'')]]
     @ [Call outlineMapper ''SetInputConnection'' [(outline, ''GetOutputPort'')]]
     @ calls_on outlineActor [''SetMapper'']
     @ calls_on renWin [''SetSize'']
     @ calls_on iren [''SetRenderWindow'', ''SetInteractorStyle'']
     @ calls_on ren1 [''SetViewport'', ''SetBackground'']
     @ calls_on renWin [''AddRenderer'']
     @ calls_on ren2 [''SetViewport'', ''SetBackground'']
     @ calls_on renWin [''AddRenderer'']
     @ calls_on ren1 [''AddVolume'', ''AddActor'', ''ResetCamera'']
     @ calls_on ren2 [''AddActor'', ''ResetCamera'']
     @ calls_on renWin [''Render'']
     @ calls_on iren [''Initialize'']"

text \<open>Line 201.\<close>

definition event_loop_calls :: "event list" where
  "event_loop_calls = calls_on iren [''Start'']"

definition EXIT_SUCCESS :: int where
  "EXIT_SUCCESS = 0"

text \<open>
  What a run that reaches \<^verbatim>\<open>return\<close> leaves behind: the exit code, the log of calls, the
  volume that was read, the mask with its cylinder, and the points evaluated and offsets
  written by the loop.
\<close>

record run =
  exit_code :: int
  trace :: "event list"
  volume_data :: "real vtkImageData"
  mask_data :: "8 word vtkImageData"
  mask_cylinder :: vtkCylinder
  mask_evaluated :: "real array3 list"
  mask_stored :: "nat list"

text \<open>
  \<^verbatim>\<open>int main(int, char**)\<close>. The two parameters have no name in the source. The toolkit
  calls after the loop are kept as log entries only: what they compute is toolkit
  behaviour. A fault in the loop ends the run; otherwise the run covers the case that
  every toolkit call returns.
\<close>

definition main :: "int \<Rightarrow> string list \<Rightarrow> world \<Rightarrow> fault + run" where
  "main argc argv w =
     (let output = reader_Update (file_system w) ''Data/CTHead.vti'';
          origin = Origin output;
          spacing = Spacing output;
          dims = GetDimensions output;
          extent = Extent output;
          center = volume_center origin spacing extent;
          m = create_mask spacing dims extent (uninitialised w);
          p = GetScalarPointer (0, 0, 0) m;
          radius = mask_radius dims;
          cyl = \<lparr>Center = center, Radius = radius\<rparr>
      in case fill_mask (EvaluateFunction cyl) dims
                \<lparr>ptr = p, bytes = Scalars m, evaluated = [], stored = [], log = []\<rparr> of
           Inl e \<Rightarrow> Inl e
         | Inr st \<Rightarrow>
             Inr \<lparr>exit_code = EXIT_SUCCESS,
                  trace = load_calls @ mask_calls @ log st @ chain_calls
                          @ mapper_calls @ renderer_calls @ event_loop_calls,
                  volume_data = output,
                  mask_data = m\<lparr>Scalars := bytes st\<rparr>,
                  mask_cylinder = cyl,
                  mask_evaluated = evaluated st,
                  mask_stored = stored st\<rparr>)"

text \<open>
  The six steps of the spec's "linear script", and the step each entry of the log belongs
  to. A statement belongs to the step of the object it is made on; of the statements on the
  interactor, \<^verbatim>\<open>Start\<close> is the event loop. The calls a statement makes in argument
  position are part of the statement. The evaluations and the writes of the loop compute
  the mask.
\<close>

datatype phase =
  Load_file | Compute_mask | Configure_filter_chain | Configure_mapper
  | Configure_renderers | Run_event_loop

fun phase_rank :: "phase \<Rightarrow> nat" where
  "phase_rank Load_file = 0"
| "phase_rank Compute_mask = 1"
| "phase_rank Configure_filter_chain = 2"
| "phase_rank Configure_mapper = 3"
| "phase_rank Configure_renderers = 4"
| "phase_rank Run_event_loop = 5"

definition phase_of_object :: "object \<Rightarrow> phase" where
  "phase_of_object obj =
     (if obj \<in> {reader, reader_GetOutput} then Load_file
      else if obj \<in> {mask, cylinder} then Compute_mask
      else if obj \<in> {reslice, reslicedVolume, reslicedMask, shiftScale, imMath}
        then Configure_filter_chain
      else if obj \<in> {volumeMapper, volumeProperty, ctf, pwf, volume, lut} then Configure_mapper
      else Configure_renderers)"

fun phase_of :: "event \<Rightarrow> phase" where
  "phase_of (Evaluate p) = Compute_mask"
| "phase_of (Store k v) = Compute_mask"
| "phase_of (Call obj m args) =
     (if obj = iren \<and> m = ''Start'' then Run_event_loop else phase_of_object obj)"

fun is_Call :: "event \<Rightarrow> bool" where
  "is_Call (Call obj m args) = True"
| "is_Call (Evaluate p) = False"
| "is_Call (Store k v) = False"

fun is_Store :: "event \<Rightarrow> bool" where
  "is_Store (Store k v) = True"
| "is_Store (Call obj m args) = False"
| "is_Store (Evaluate p) = False"

text \<open>The calls a statement makes in argument position, and the methods that only read.\<close>

fun argument_calls :: "event \<Rightarrow> (object \<times> string) list" where
  "argument_calls (Call obj m args) = args"
| "argument_calls (Evaluate p) = []"
| "argument_calls (Store k v) = []"

definition getters :: "string list" where
  "getters = [''GetOutput'', ''GetOutputPort'', ''GetScalarType'', ''GetMapper'']"

section \<open>Reading the model\<close>

text \<open>
  The value of the voxel with structured coordinates \<open>c\<close>: the element of the buffer that
  \<^verbatim>\<open>GetScalarPointer\<close> points to.
\<close>

definition voxel_at :: "'s vtkImageData \<Rightarrow> int array3 \<Rightarrow> 's option" where
  "voxel_at img c =
     (case GetScalarPointer c img of
        None \<Rightarrow> None
      | Some k \<Rightarrow> if k < length (Scalars img) then Some (Scalars img ! k) else None)"

text \<open>
  The voxels in the order the triple loop visits them (z outermost, x innermost), as
  triples \<open>(z, y, x)\<close>; the point the loop evaluates the implicit function at for a
  voxel, and the byte it stores for it.
\<close>

definition voxels :: "int \<Rightarrow> int \<Rightarrow> int \<Rightarrow> (int \<times> int \<times> int) list" where
  "voxels dx dy dz =
     concat (map (\<lambda>z. map (Pair z) (concat (map (\<lambda>y. map (Pair y) (below dx)) (below dy))))
       (below dz))"

definition voxel_point :: "int \<times> int \<times> int \<Rightarrow> real array3" where
  "voxel_point v = (case v of (z, y, x) \<Rightarrow> (of_int x, of_int z, of_int y))"

definition voxel_value :: "(real array3 \<Rightarrow> real) \<Rightarrow> int \<times> int \<times> int \<Rightarrow> 8 word" where
  "voxel_value f v = (if f (voxel_point v) > 0 then 0 else 255)"

text \<open>
  What the loop logs when it starts at offset \<open>p\<close> and visits the voxels \<open>vs\<close>: for each
  voxel an evaluation, then the write of its byte at the next offset.
\<close>

definition loop_events ::
  "(real array3 \<Rightarrow> real) \<Rightarrow> nat \<Rightarrow> (int \<times> int \<times> int) list \<Rightarrow> event list" where
  "loop_events f p vs =
     concat (map (\<lambda>(k, v). [Evaluate (voxel_point v), Store k (voxel_value f v)])
               (zip [p..<p + length vs] vs))"

text \<open>
  Following the spec's words, "voxels within radius get 255, others get 0": a point lies
  within the cylinder's radius when the implicit function is not positive there.
\<close>

definition within_radius :: "vtkCylinder \<Rightarrow> real array3 \<Rightarrow> bool" where
  "within_radius cyl p = (EvaluateFunction cyl p \<le> 0)"

subsection \<open>Some volumes and worlds\<close>

definition volume_of :: "real array3 \<Rightarrow> real array3 \<Rightarrow> int array6 \<Rightarrow> real vtkImageData" where
  "volume_of origin spacing extent =
     \<lparr>Origin = origin, Spacing = spacing, Extent = extent, ScalarType = VTK_SHORT,
      NumberOfScalarComponents = 1,
      Scalars = replicate (nat ((at6 extent 1 - at6 extent 0 + 1) * (at6 extent 3 - at6 extent 2 + 1)
                                * (at6 extent 5 - at6 extent 4 + 1))) 0\<rparr>"

definition world_with :: "real vtkImageData option \<Rightarrow> world" where
  "world_with f =
     \<lparr>environ = [], file_system = (\<lambda>name. if name = ''Data/CTHead.vti'' then f else None),
      uninitialised = (\<lambda>i. 0)\<rparr>"

text \<open>Two voxels in a row; the cylinder's surface passes through the second.\<close>

definition pair_volume :: "real vtkImageData" where
  "pair_volume = volume_of (49.5, 0, 0) (1, 1, 1) (0, 1, 0, 0, 0, 0)"

text \<open>A slab of \<open>102 \<times> 1 \<times> 102\<close> voxels at the origin with unit spacing.\<close>

definition slab_volume :: "real vtkImageData" where
  "slab_volume = volume_of (0, 0, 0) (1, 1, 1) (0, 101, 0, 0, 0, 101)"

text \<open>Two voxels in a row whose extent starts at \<open>-1\<close>, and two whose extent starts at \<open>1\<close>.\<close>

definition shifted_volume :: "int \<Rightarrow> real vtkImageData" where
  "shifted_volume e = volume_of (0, 0, 0) (1, 1, 1) (e, e + 1, 0, 0, 0, 0)"

section \<open>The loops\<close>

lemma for_each_append:
  "for_each (xs @ ys) body st =
     (case for_each xs body st of Inl e \<Rightarrow> Inl e | Inr st' \<Rightarrow> for_each ys body st')"
  by (induction xs arbitrary: st) (auto split: sum.splits)

lemma for_each_map:
  "for_each (map g xs) body st = for_each xs (\<lambda>x. body (g x)) st"
  by (induction xs arbitrary: st) (auto split: sum.splits)

lemma for_each_nested:
  "for_each as (\<lambda>a. for_each bs (h a)) st =
     for_each (concat (map (\<lambda>a. map (Pair a) bs) as)) (\<lambda>(a, b). h a b) st"
  by (induction as arbitrary: st) (auto simp: for_each_append for_each_map split: sum.splits)

lemma fill_mask_flat:
  "fill_mask f (dx, dy, dz) st = for_each (voxels dx dy dz) (\<lambda>(z, y, x). mask_voxel f x y z) st"
proof -
  have inner: "\<And>z. for_each (below dy) (\<lambda>y. for_each (below dx) (\<lambda>x. mask_voxel f x y z))
      = for_each (concat (map (\<lambda>y. map (Pair y) (below dx)) (below dy)))
          (\<lambda>(y, x). mask_voxel f x y z)"
    by (rule ext) (rule for_each_nested)
  have "fill_mask f (dx, dy, dz) st =
        for_each (below dz) (\<lambda>z. for_each (concat (map (\<lambda>y. map (Pair y) (below dx)) (below dy)))
          (\<lambda>(y, x). mask_voxel f x y z)) st"
    by (simp add: fill_mask_def inner)
  also have "\<dots> = for_each (voxels dx dy dz) (\<lambda>(z, y, x). mask_voxel f x y z) st"
    unfolding voxels_def by (rule for_each_nested)
  finally show ?thesis .
qed

lemma loop_events_Cons:
  "loop_events f p (v # vs)
     = [Evaluate (voxel_point v), Store p (voxel_value f v)] @ loop_events f (p + 1) vs"
proof -
  have "[p..<p + length (v # vs)] = p # [p + 1..<p + 1 + length vs]"
    using upt_conv_Cons [of p "p + 1 + length vs"] by simp
  then show ?thesis by (simp add: loop_events_def)
qed

lemma for_each_voxels:
  "ptr st = Some p \<Longrightarrow> p + length vs \<le> length (bytes st) \<Longrightarrow>
   for_each vs (\<lambda>(z, y, x). mask_voxel f x y z) st =
     Inr (st\<lparr>ptr := Some (p + length vs),
            bytes := take p (bytes st) @ map (voxel_value f) vs @ drop (p + length vs) (bytes st),
            evaluated := evaluated st @ map voxel_point vs,
            stored := stored st @ [p..<p + length vs],
            log := log st @ loop_events f p vs\<rparr>)"
proof (induction vs arbitrary: st p)
  case Nil
  then show ?case by (simp add: loop_events_def)
next
  case (Cons v vs)
  obtain z y x where v: "v = (z, y, x)" by (cases v) auto
  let ?st1 = "st\<lparr>evaluated := evaluated st @ [voxel_point v],
                log := log st @ [Evaluate (voxel_point v)]\<rparr>"
  let ?st2 = "?st1\<lparr>ptr := Some (p + 1), bytes := (bytes st)[p := voxel_value f v],
                 stored := stored st @ [p],
                 log := log st @ [Evaluate (voxel_point v), Store p (voxel_value f v)]\<rparr>"
  have step: "mask_voxel f x y z st = Inr ?st2"
    using Cons.prems by (simp add: mask_voxel_def store_def v voxel_value_def voxel_point_def Let_def)
  have "for_each vs (\<lambda>(z, y, x). mask_voxel f x y z) ?st2 =
        Inr (?st2\<lparr>ptr := Some (p + 1 + length vs),
            bytes := take (p + 1) (bytes ?st2) @ map (voxel_value f) vs @ drop (p + 1 + length vs) (bytes ?st2),
            evaluated := evaluated ?st2 @ map voxel_point vs,
            stored := stored ?st2 @ [p + 1..<p + 1 + length vs],
            log := log ?st2 @ loop_events f (p + 1) vs\<rparr>)"
    using Cons.prems by (intro Cons.IH) auto
  moreover have "take (p + 1) ((bytes st)[p := voxel_value f v]) = take p (bytes st) @ [voxel_value f v]"
    using Cons.prems by (simp add: take_Suc_conv_app_nth)
  moreover have "[p..<p + 1 + length vs] = p # [p + 1..<p + 1 + length vs]"
    using upt_conv_Cons [of p "p + 1 + length vs"] by simp
  moreover have "loop_events f p (v # vs)
      = [Evaluate (voxel_point v), Store p (voxel_value f v)] @ loop_events f (p + 1) vs"
    by (rule loop_events_Cons)
  ultimately show ?case
    using step by (simp add: v)
qed

subsection \<open>The order of the voxels\<close>

lemma length_below: "length (below n) = nat n"
  by (simp add: below_def)

lemma nth_below: "i < nat n \<Longrightarrow> below n ! i = int i"
  by (simp add: below_def)

lemma length_concat_blocks:
  "length (concat (map (\<lambda>a. map (Pair a) bs) as)) = length as * length bs"
  by (induction as) auto

lemma nth_concat_blocks:
  "i < length as \<Longrightarrow> j < length bs \<Longrightarrow>
   concat (map (\<lambda>a. map (Pair a) bs) as) ! (i * length bs + j) = (as ! i, bs ! j)"
proof (induction as arbitrary: i)
  case Nil
  then show ?case by simp
next
  case (Cons a as)
  show ?case
  proof (cases i)
    case 0
    with Cons.prems show ?thesis by (simp add: nth_append)
  next
    case (Suc k)
    with Cons.prems have "k < length as" by simp
    from Cons.IH [OF this Cons.prems(2)] Suc show ?thesis
      by (simp add: nth_append add.assoc)
  qed
qed

lemma length_voxels:
  "length (voxels dx dy dz) = nat dz * (nat dy * nat dx)"
  by (simp add: voxels_def length_concat_blocks length_below)

lemma nth_voxels:
  assumes "i < nat dx" "j < nat dy" "k < nat dz"
  shows "voxels dx dy dz ! (k * (nat dy * nat dx) + (j * nat dx + i)) = (int k, int j, int i)"
proof -
  let ?row = "below dx"
  let ?plane = "concat (map (\<lambda>y. map (Pair y) ?row) (below dy))"
  have lp: "length ?plane = nat dy * nat dx"
    by (simp add: length_concat_blocks length_below)
  have inplane: "j * nat dx + i < length ?plane"
  proof -
    have "j * nat dx + i < Suc j * nat dx" using assms(1) by simp
    also have "\<dots> \<le> nat dy * nat dx"
      using assms(2) by (intro mult_le_mono1) simp
    finally show ?thesis by (simp add: lp)
  qed
  have p: "?plane ! (j * nat dx + i) = (int j, int i)"
    using nth_concat_blocks [of j "below dy" i ?row] assms
    by (simp add: length_below nth_below)
  have "voxels dx dy dz ! (k * length ?plane + (j * nat dx + i))
        = (below dz ! k, ?plane ! (j * nat dx + i))"
    unfolding voxels_def
    using assms(3) inplane by (intro nth_concat_blocks) (simp_all add: length_below)
  then show ?thesis
    using assms(3) by (simp add: lp p nth_below)
qed

lemma voxel_index:
  assumes "0 \<le> x" "x < dx" "0 \<le> y" "y < dy" "0 \<le> z" "z < dz"
  shows "nat (x + y * dx + z * dx * dy) = nat z * (nat dy * nat dx) + (nat y * nat dx + nat x)"
proof -
  have "0 \<le> y * dx" "0 \<le> z * dx * dy"
    using assms by simp_all
  then show ?thesis
    using assms by (simp add: nat_add_distrib nat_mult_distrib ac_simps)
qed

lemma voxel_index_less:
  assumes "0 \<le> x" "x < dx" "0 \<le> y" "y < dy" "0 \<le> z" "z < dz"
  shows "nat (x + y * dx + z * dx * dy) < length (voxels dx dy dz)"
proof -
  let ?a = "nat dx" and ?b = "nat dy" and ?c = "nat dz"
  have "nat y * ?a + nat x < Suc (nat y) * ?a" using assms by simp
  also have "\<dots> \<le> ?b * ?a" using assms by (intro mult_le_mono1) simp
  finally have "nat z * (?b * ?a) + (nat y * ?a + nat x) < Suc (nat z) * (?b * ?a)" by simp
  also have "\<dots> \<le> ?c * (?b * ?a)" using assms by (intro mult_le_mono1) simp
  finally show ?thesis
    by (simp add: voxel_index [OF assms] length_voxels)
qed

lemma nth_voxels_int:
  assumes "0 \<le> x" "x < dx" "0 \<le> y" "y < dy" "0 \<le> z" "z < dz"
  shows "voxels dx dy dz ! nat (x + y * dx + z * dx * dy) = (z, y, x)"
  using nth_voxels [of "nat x" dx "nat y" dy "nat z" dz] assms
  by (simp add: voxel_index [OF assms])

subsection \<open>Faults of the loop\<close>

lemma mask_voxel_Inr:
  "mask_voxel f x y z st = Inr st1 \<Longrightarrow>
   \<exists>p. ptr st = Some p \<and> p < length (bytes st) \<and> ptr st1 = Some (p + 1)
       \<and> length (bytes st1) = length (bytes st)"
  by (auto simp: mask_voxel_def store_def Let_def split: option.splits if_splits)

lemma for_each_Inr_bounds:
  "for_each vs (\<lambda>(z, y, x). mask_voxel f x y z) st = Inr st' \<Longrightarrow> vs \<noteq> [] \<Longrightarrow>
   \<exists>p. ptr st = Some p \<and> p + length vs \<le> length (bytes st)"
proof (induction vs arbitrary: st)
  case Nil
  then show ?case by simp
next
  case (Cons v vs)
  obtain z y x where v: "v = (z, y, x)" by (cases v) auto
  from Cons.prems(1) obtain st1 where
    step: "mask_voxel f x y z st = Inr st1" and
    rest: "for_each vs (\<lambda>(z, y, x). mask_voxel f x y z) st1 = Inr st'"
    by (auto simp: v split: sum.splits)
  from mask_voxel_Inr [OF step] obtain p where
    p: "ptr st = Some p" "p < length (bytes st)" "ptr st1 = Some (p + 1)"
       "length (bytes st1) = length (bytes st)"
    by blast
  show ?case
  proof (cases "vs = []")
    case True
    with p show ?thesis by simp
  next
    case False
    from Cons.IH [OF rest False] p show ?thesis by auto
  qed
qed

lemma for_each_null:
  "ptr st = None \<Longrightarrow> vs \<noteq> [] \<Longrightarrow>
   for_each vs (\<lambda>(z, y, x). mask_voxel f x y z) st = Inl Null_pointer_write"
  by (cases vs) (auto simp: mask_voxel_def store_def Let_def)

lemma for_each_overrun:
  "ptr st = Some p \<Longrightarrow> p \<le> length (bytes st) \<Longrightarrow> length (bytes st) < p + length vs \<Longrightarrow>
   for_each vs (\<lambda>(z, y, x). mask_voxel f x y z) st = Inl (Out_of_bounds_write (length (bytes st)))"
proof (induction vs arbitrary: st p)
  case Nil
  then show ?case by simp
next
  case (Cons v vs)
  obtain z y x where v: "v = (z, y, x)" by (cases v) auto
  show ?case
  proof (cases "p = length (bytes st)")
    case True
    with Cons.prems show ?thesis
      by (simp add: v mask_voxel_def store_def Let_def)
  next
    case False
    with Cons.prems have lt: "p < length (bytes st)" by simp
    let ?st2 = "st\<lparr>evaluated := evaluated st @ [voxel_point v], ptr := Some (p + 1),
                  bytes := (bytes st)[p := voxel_value f v], stored := stored st @ [p],
                  log := log st @ [Evaluate (voxel_point v), Store p (voxel_value f v)]\<rparr>"
    have step: "mask_voxel f x y z st = Inr ?st2"
      using Cons.prems lt
      by (simp add: mask_voxel_def store_def v voxel_value_def voxel_point_def Let_def)
    have "for_each vs (\<lambda>(z, y, x). mask_voxel f x y z) ?st2
          = Inl (Out_of_bounds_write (length (bytes ?st2)))"
      using Cons.prems lt by (intro Cons.IH [of _ "p + 1"]) auto
    then show ?thesis using step by (simp add: v)
  qed
qed

lemma create_mask_fields:
  "Extent (create_mask s d e fr) = e"
  "Spacing (create_mask s d e fr) = s"
  "Origin (create_mask s d e fr) = (of_int (at6 e 0), of_int (at6 e 2), of_int (at6 e 4))"
  "ScalarType (create_mask s d e fr) = VTK_UNSIGNED_CHAR"
  "NumberOfScalarComponents (create_mask s d e fr) = 1"
  by (simp_all add: create_mask_def AllocateScalars_def SetExtent_def SetSpacing_def
      SetOrigin_def SetDimensions_def)

lemma create_mask_Scalars:
  "Scalars (create_mask s d (e0, e1, e2, e3, e4, e5) fr)
     = map fr [0..<nat ((e1 - e0 + 1) * (e3 - e2 + 1) * (e5 - e4 + 1))]"
  by (simp add: create_mask_def AllocateScalars_def SetExtent_def SetSpacing_def
      SetOrigin_def SetDimensions_def NumberOfPoints_def GetDimensions_def)

lemma voxels_empty_iff: "voxels dx dy dz = [] \<longleftrightarrow> dx \<le> 0 \<or> dy \<le> 0 \<or> dz \<le> 0"
proof -
  have "voxels dx dy dz = [] \<longleftrightarrow> length (voxels dx dy dz) = 0" by simp
  also have "\<dots> \<longleftrightarrow> dx \<le> 0 \<or> dy \<le> 0 \<or> dz \<le> 0"
    by (auto simp: length_voxels)
  finally show ?thesis .
qed

lemma length_voxels_product:
  "0 < dx \<Longrightarrow> 0 < dy \<Longrightarrow> 0 < dz \<Longrightarrow> length (voxels dx dy dz) = nat (dx * dy * dz)"
  by (simp add: length_voxels nat_mult_distrib ac_simps)

section \<open>Runs of the program\<close>

lemma GetScalarPointer_unfold:
  "Extent m = (e0, e1, e2, e3, e4, e5) \<Longrightarrow> NumberOfScalarComponents m = 1 \<Longrightarrow>
   GetScalarPointer (x, y, z) m =
     (if x < e0 \<or> e1 < x \<or> y < e2 \<or> e3 < y \<or> z < e4 \<or> e5 < z then None
      else Some (nat ((x - e0) + (y - e2) * (e1 - e0 + 1)
                      + (z - e4) * (e1 - e0 + 1) * (e3 - e2 + 1))))"
  by (simp add: GetScalarPointer_def GetDimensions_def)

lemma scalar_pointer_start:
  assumes "GetScalarPointer (0, 0, 0) m = Some 0"
    and "Extent m = (e0, e1, e2, e3, e4, e5)" and "NumberOfScalarComponents m = 1"
    and "0 < e1 - e0 + 1" and "0 < e3 - e2 + 1"
  shows "e0 = 0 \<and> e2 = 0 \<and> e4 = 0"
proof -
  let ?dx = "e1 - e0 + 1" and ?dy = "e3 - e2 + 1"
  from assms(1) have inside: "e0 \<le> 0" "e2 \<le> 0" "e4 \<le> 0"
    and sum: "(- e0) + (- e2) * ?dx + (- e4) * ?dx * ?dy \<le> 0"
    by (auto simp: GetScalarPointer_unfold [OF assms(2,3)] split: if_splits)
  have a: "0 \<le> (- e2) * ?dx" using inside assms(4) by (intro mult_nonneg_nonneg) auto
  have b: "0 \<le> (- e4) * ?dx * ?dy" using inside assms(4,5) by (intro mult_nonneg_nonneg) auto
  from sum a b inside have "e0 = 0" "(- e2) * ?dx = 0" "(- e4) * ?dx * ?dy = 0"
    by linarith+
  with assms(4,5) show ?thesis by auto
qed

lemma main_Inr_fill:
  assumes "main argc argv w = Inr r"
    and "reader_Update (file_system w) ''Data/CTHead.vti'' = vol"
    and "Extent vol = (e0, e1, e2, e3, e4, e5)"
    and "dx = e1 - e0 + 1" and "dy = e3 - e2 + 1" and "dz = e5 - e4 + 1"
    and "m = create_mask (Spacing vol) (dx, dy, dz) (Extent vol) (uninitialised w)"
    and "cyl = \<lparr>Center = volume_center (Origin vol) (Spacing vol) (Extent vol),
                 Radius = mask_radius (dx, dy, dz)\<rparr>"
  obtains st where
    "for_each (voxels dx dy dz) (\<lambda>(z, y, x). mask_voxel (EvaluateFunction cyl) x y z)
       \<lparr>ptr = GetScalarPointer (0, 0, 0) m, bytes = Scalars m, evaluated = [], stored = [],
        log = []\<rparr> = Inr st"
    and "r = \<lparr>exit_code = EXIT_SUCCESS,
             trace = load_calls @ mask_calls @ log st @ chain_calls
                     @ mapper_calls @ renderer_calls @ event_loop_calls,
             volume_data = vol, mask_data = m\<lparr>Scalars := bytes st\<rparr>, mask_cylinder = cyl,
             mask_evaluated = evaluated st, mask_stored = stored st\<rparr>"
proof -
  have dims: "GetDimensions vol = (dx, dy, dz)"
    using assms(3-6) by (simp add: GetDimensions_def)
  from assms(1) show ?thesis
    unfolding main_def Let_def assms(2) dims fill_mask_flat
    using that assms(7,8) by (auto split: sum.splits)
qed

lemma main_run_facts:
  assumes run: "main argc argv w = Inr r"
    and dims: "GetDimensions (volume_data r) = (dx, dy, dz)"
  shows "exit_code r = EXIT_SUCCESS"
    and "volume_data r = reader_Update (file_system w) ''Data/CTHead.vti''"
    and "mask_cylinder r =
           \<lparr>Center = volume_center (Origin (volume_data r)) (Spacing (volume_data r))
                       (Extent (volume_data r)),
            Radius = mask_radius (dx, dy, dz)\<rparr>"
    and "mask_evaluated r = map voxel_point (voxels dx dy dz)"
    and "mask_stored r = [0..<length (voxels dx dy dz)]"
    and "trace r = load_calls @ mask_calls
                   @ loop_events (EvaluateFunction (mask_cylinder r)) 0 (voxels dx dy dz)
                   @ chain_calls @ mapper_calls @ renderer_calls @ event_loop_calls"
    and "Extent (mask_data r) = Extent (volume_data r)
         \<and> Spacing (mask_data r) = Spacing (volume_data r)
         \<and> Origin (mask_data r) = (of_int (at6 (Extent (volume_data r)) 0),
               of_int (at6 (Extent (volume_data r)) 2), of_int (at6 (Extent (volume_data r)) 4))
         \<and> ScalarType (mask_data r) = VTK_UNSIGNED_CHAR
         \<and> NumberOfScalarComponents (mask_data r) = 1
         \<and> length (Scalars (mask_data r)) = nat (dx * dy * dz)"
    and "voxels dx dy dz \<noteq> [] \<Longrightarrow>
           Extent (volume_data r) = (0, dx - 1, 0, dy - 1, 0, dz - 1)"
    and "voxels dx dy dz \<noteq> [] \<Longrightarrow>
           Scalars (mask_data r)
             = map (voxel_value (EvaluateFunction (mask_cylinder r))) (voxels dx dy dz)"
proof -
  define vol where "vol = reader_Update (file_system w) ''Data/CTHead.vti''"
  obtain e0 e1 e2 e3 e4 e5 where ext: "Extent vol = (e0, e1, e2, e3, e4, e5)"
    by (metis prod_cases6)
  define m where
    "m = create_mask (Spacing vol) (e1 - e0 + 1, e3 - e2 + 1, e5 - e4 + 1) (Extent vol)
           (uninitialised w)"
  define cyl where
    "cyl = \<lparr>Center = volume_center (Origin vol) (Spacing vol) (Extent vol),
            Radius = mask_radius (e1 - e0 + 1, e3 - e2 + 1, e5 - e4 + 1)\<rparr>"
  let ?vs = "voxels (e1 - e0 + 1) (e3 - e2 + 1) (e5 - e4 + 1)"
  let ?st0 = "\<lparr>ptr = GetScalarPointer (0, 0, 0) m, bytes = Scalars m, evaluated = [],
               stored = [], log = []\<rparr>"
  from main_Inr_fill [OF run vol_def [symmetric] ext refl refl refl m_def cyl_def]
  obtain st where
    fill: "for_each ?vs (\<lambda>(z, y, x). mask_voxel (EvaluateFunction cyl) x y z) ?st0 = Inr st"
    and r: "r = \<lparr>exit_code = EXIT_SUCCESS,
             trace = load_calls @ mask_calls @ log st @ chain_calls
                     @ mapper_calls @ renderer_calls @ event_loop_calls,
             volume_data = vol, mask_data = m\<lparr>Scalars := bytes st\<rparr>, mask_cylinder = cyl,
             mask_evaluated = evaluated st, mask_stored = stored st\<rparr>"
    by blast
  have d: "dx = e1 - e0 + 1" "dy = e3 - e2 + 1" "dz = e5 - e4 + 1"
    using dims by (simp_all add: r GetDimensions_def ext)
  have lenm: "length (Scalars m) = nat (dx * dy * dz)"
    by (simp add: m_def ext create_mask_Scalars d)
  have st: "evaluated st = map voxel_point ?vs \<and> stored st = [0..<length ?vs]
            \<and> log st = loop_events (EvaluateFunction cyl) 0 ?vs
            \<and> (?vs \<noteq> [] \<longrightarrow> e0 = 0 \<and> e2 = 0 \<and> e4 = 0
                 \<and> bytes st = map (voxel_value (EvaluateFunction cyl)) ?vs)"
  proof (cases "?vs = []")
    case True
    with fill show ?thesis by (auto simp: loop_events_def)
  next
    case False
    from for_each_Inr_bounds [OF fill False] obtain p where
      p: "GetScalarPointer (0, 0, 0) m = Some p" "p + length ?vs \<le> length (Scalars m)"
      by auto
    from False have pos: "0 < dx" "0 < dy" "0 < dz"
      by (simp_all add: voxels_empty_iff d)
    have len: "length ?vs = length (Scalars m)"
      using length_voxels_product [OF pos] by (simp add: lenm d)
    with p have p0: "p = 0" by simp
    have "e0 = 0 \<and> e2 = 0 \<and> e4 = 0"
      using p(1) pos
      by (intro scalar_pointer_start [of m _ e1 _ e3 _ e5])
         (simp_all add: p0 m_def create_mask_fields ext d)
    moreover from for_each_voxels [of ?st0 0 ?vs "EvaluateFunction cyl"] fill p len
    have "st = ?st0\<lparr>ptr := Some (0 + length ?vs),
            bytes := take 0 (bytes ?st0) @ map (voxel_value (EvaluateFunction cyl)) ?vs
                     @ drop (0 + length ?vs) (bytes ?st0),
            evaluated := evaluated ?st0 @ map voxel_point ?vs,
            stored := stored ?st0 @ [0..<0 + length ?vs],
            log := log ?st0 @ loop_events (EvaluateFunction cyl) 0 ?vs\<rparr>"
      by (simp add: p0)
    ultimately show ?thesis using len by simp
  qed
  show "exit_code r = EXIT_SUCCESS" by (simp add: r)
  show "volume_data r = reader_Update (file_system w) ''Data/CTHead.vti''"
    by (simp add: r vol_def)
  show "mask_cylinder r =
           \<lparr>Center = volume_center (Origin (volume_data r)) (Spacing (volume_data r))
                       (Extent (volume_data r)),
            Radius = mask_radius (dx, dy, dz)\<rparr>"
    by (simp add: r cyl_def d)
  show "mask_evaluated r = map voxel_point (voxels dx dy dz)"
    using st by (simp add: r d)
  show "mask_stored r = [0..<length (voxels dx dy dz)]"
    using st by (simp add: r d)
  show "trace r = load_calls @ mask_calls
                   @ loop_events (EvaluateFunction (mask_cylinder r)) 0 (voxels dx dy dz)
                   @ chain_calls @ mapper_calls @ renderer_calls @ event_loop_calls"
    using st by (simp add: r d)
  have "length (bytes st) = length (Scalars m)"
  proof (cases "?vs = []")
    case True
    with fill show ?thesis by auto
  next
    case False
    then have "0 < dx" "0 < dy" "0 < dz"
      by (simp_all add: voxels_empty_iff d)
    from length_voxels_product [OF this] st False show ?thesis
      by (simp add: lenm d)
  qed
  moreover have "Extent m = Extent vol" "Spacing m = Spacing vol"
    "Origin m = (of_int (at6 (Extent vol) 0), of_int (at6 (Extent vol) 2),
                 of_int (at6 (Extent vol) 4))"
    "ScalarType m = VTK_UNSIGNED_CHAR" "NumberOfScalarComponents m = 1"
    by (simp_all only: m_def create_mask_fields)
  ultimately show "Extent (mask_data r) = Extent (volume_data r)
         \<and> Spacing (mask_data r) = Spacing (volume_data r)
         \<and> Origin (mask_data r) = (of_int (at6 (Extent (volume_data r)) 0),
               of_int (at6 (Extent (volume_data r)) 2), of_int (at6 (Extent (volume_data r)) 4))
         \<and> ScalarType (mask_data r) = VTK_UNSIGNED_CHAR
         \<and> NumberOfScalarComponents (mask_data r) = 1
         \<and> length (Scalars (mask_data r)) = nat (dx * dy * dz)"
    using lenm by (simp add: r)
  show "Extent (volume_data r) = (0, dx - 1, 0, dy - 1, 0, dz - 1)" if "voxels dx dy dz \<noteq> []"
    using st that by (simp add: r d ext)
  show "Scalars (mask_data r)
             = map (voxel_value (EvaluateFunction (mask_cylinder r))) (voxels dx dy dz)"
    if "voxels dx dy dz \<noteq> []"
    using st that by (simp add: r d)
qed

lemma main_returns:
  assumes vol: "reader_Update (file_system w) ''Data/CTHead.vti'' = vol"
    and dims: "GetDimensions vol = (dx, dy, dz)"
    and ok: "voxels dx dy dz = [] \<or> Extent vol = (0, dx - 1, 0, dy - 1, 0, dz - 1)"
  shows "\<exists>r. main argc argv w = Inr r"
proof -
  let ?m = "create_mask (Spacing vol) (dx, dy, dz) (Extent vol) (uninitialised w)"
  let ?cyl = "\<lparr>Center = volume_center (Origin vol) (Spacing vol) (Extent vol),
               Radius = mask_radius (dx, dy, dz)\<rparr>"
  let ?st0 = "\<lparr>ptr = GetScalarPointer (0, 0, 0) ?m, bytes = Scalars ?m, evaluated = [],
               stored = [], log = []\<rparr>"
  have "\<exists>st. for_each (voxels dx dy dz) (\<lambda>(z, y, x). mask_voxel (EvaluateFunction ?cyl) x y z) ?st0
          = Inr st"
  proof (cases "voxels dx dy dz = []")
    case True
    then show ?thesis by simp
  next
    case False
    with ok have ext: "Extent vol = (0, dx - 1, 0, dy - 1, 0, dz - 1)" by simp
    from False have pos: "0 < dx" "0 < dy" "0 < dz"
      by (simp_all add: voxels_empty_iff)
    have e: "Extent ?m = (0, dx - 1, 0, dy - 1, 0, dz - 1)"
      by (simp add: create_mask_fields ext)
    have c: "NumberOfScalarComponents ?m = 1"
      by (simp add: create_mask_fields)
    have p: "ptr ?st0 = Some 0"
      using pos by (simp add: GetScalarPointer_unfold [OF e c])
    have "length (bytes ?st0) = nat (dx * dy * dz)"
      by (simp add: ext create_mask_Scalars)
    then have len: "0 + length (voxels dx dy dz) \<le> length (bytes ?st0)"
      using length_voxels_product [OF pos] by simp
    from for_each_voxels [OF p len] show ?thesis by blast
  qed
  then show ?thesis
    unfolding main_def Let_def vol dims fill_mask_flat by (auto split: sum.splits)
qed

lemma main_returns_iff:
  assumes vol: "reader_Update (file_system w) ''Data/CTHead.vti'' = vol"
    and dims: "GetDimensions vol = (dx, dy, dz)"
  shows "(\<exists>r. main argc argv w = Inr r)
         \<longleftrightarrow> voxels dx dy dz = [] \<or> Extent vol = (0, dx - 1, 0, dy - 1, 0, dz - 1)"
proof
  assume "\<exists>r. main argc argv w = Inr r"
  then obtain r where run: "main argc argv w = Inr r" ..
  have v: "volume_data r = vol"
    using run vol unfolding main_def Let_def by (auto split: sum.splits)
  from main_run_facts(8) [OF run, of dx dy dz] dims v
  show "voxels dx dy dz = [] \<or> Extent vol = (0, dx - 1, 0, dy - 1, 0, dz - 1)"
    by auto
next
  assume "voxels dx dy dz = [] \<or> Extent vol = (0, dx - 1, 0, dy - 1, 0, dz - 1)"
  from main_returns [OF vol dims this] show "\<exists>r. main argc argv w = Inr r" .
qed

lemma mask_voxel_at:
  assumes run: "main argc argv w = Inr r"
    and dims: "GetDimensions (volume_data r) = (dx, dy, dz)"
    and range: "0 \<le> x" "x < dx" "0 \<le> y" "y < dy" "0 \<le> z" "z < dz"
  shows "GetScalarPointer (x, y, z) (mask_data r) = Some (nat (x + y * dx + z * dx * dy))"
    and "voxel_at (mask_data r) (x, y, z)
           = Some (voxel_value (EvaluateFunction (mask_cylinder r)) (z, y, x))"
proof -
  let ?k = "nat (x + y * dx + z * dx * dy)"
  have ne: "voxels dx dy dz \<noteq> []"
    using range by (simp add: voxels_empty_iff)
  note facts = main_run_facts [OF run dims]
  have ext: "Extent (mask_data r) = (0, dx - 1, 0, dy - 1, 0, dz - 1)"
    using facts(7) facts(8) [OF ne] by simp
  have comps: "NumberOfScalarComponents (mask_data r) = 1"
    using facts(7) by simp
  show ptr: "GetScalarPointer (x, y, z) (mask_data r) = Some ?k"
    using range by (simp add: GetScalarPointer_unfold [OF ext comps])
  have lt: "?k < length (voxels dx dy dz)"
    by (rule voxel_index_less [OF range])
  have "Scalars (mask_data r) ! ?k
        = voxel_value (EvaluateFunction (mask_cylinder r)) (voxels dx dy dz ! ?k)"
    using lt by (simp add: facts(9) [OF ne])
  then show "voxel_at (mask_data r) (x, y, z)
           = Some (voxel_value (EvaluateFunction (mask_cylinder r)) (z, y, x))"
    using lt by (simp add: voxel_at_def ptr facts(9) [OF ne] nth_voxels_int [OF range])
qed

subsection \<open>Runs on the example volumes\<close>

lemma read_world_with:
  "reader_Update (file_system (world_with f)) ''Data/CTHead.vti''
     = (case f of None \<Rightarrow> vtkNew_vtkImageData | Some img \<Rightarrow> img)"
  by (simp add: world_with_def reader_Update_def)

lemma volume_of_fields:
  "Origin (volume_of p s e) = p" "Spacing (volume_of p s e) = s" "Extent (volume_of p s e) = e"
  by (simp_all add: volume_of_def)

lemma GetDimensions_volume_of:
  "GetDimensions (volume_of p s (e0, e1, e2, e3, e4, e5)) = (e1 - e0 + 1, e3 - e2 + 1, e5 - e4 + 1)"
  by (simp add: GetDimensions_def volume_of_def)

lemma main_volume_data:
  "main argc argv w = Inr r \<Longrightarrow>
   volume_data r = reader_Update (file_system w) ''Data/CTHead.vti''"
  unfolding main_def Let_def by (auto split: sum.splits)

lemma pair_volume_run:
  "\<exists>r. main argc argv (world_with (Some pair_volume)) = Inr r"
  by (rule main_returns [where vol = pair_volume and dx = 2 and dy = 1 and dz = 1])
     (simp_all add: read_world_with pair_volume_def GetDimensions_volume_of volume_of_fields)

lemma pair_volume_facts:
  obtains r where "main argc argv (world_with (Some pair_volume)) = Inr r"
    and "volume_data r = pair_volume"
    and "GetDimensions (volume_data r) = (2, 1, 1)"
    and "mask_cylinder r = \<lparr>Center = (50, 0, 0), Radius = - 49\<rparr>"
    and "mask_evaluated r = [(0, 0, 0), (1, 0, 0)]"
proof -
  from pair_volume_run obtain r where
    run: "main argc argv (world_with (Some pair_volume)) = Inr r" by blast
  have vol: "volume_data r = pair_volume"
    by (simp add: main_volume_data [OF run] read_world_with)
  have dims: "GetDimensions (volume_data r) = (2, 1, 1)"
    by (simp add: vol pair_volume_def GetDimensions_volume_of)
  have cyl: "mask_cylinder r = \<lparr>Center = (50, 0, 0), Radius = - 49\<rparr>"
    by (simp add: main_run_facts(3) [OF run dims] vol pair_volume_def volume_of_fields
        volume_center_def mask_radius_def)
  have ev: "mask_evaluated r = [(0, 0, 0), (1, 0, 0)]"
    by (simp add: main_run_facts(4) [OF run dims] voxels_def below_def voxel_point_def upto.simps)
  from that [OF run vol dims cyl ev] show ?thesis .
qed

lemma main_fault:
  assumes vol: "reader_Update (file_system w) ''Data/CTHead.vti'' = vol"
    and ext: "Extent vol = (e0, e1, e2, e3, e4, e5)"
    and pos: "e0 \<le> e1" "e2 \<le> e3" "e4 \<le> e5"
  shows "0 < e0 \<or> 0 < e2 \<or> 0 < e4 \<or> e1 < 0 \<or> e3 < 0 \<or> e5 < 0
           \<Longrightarrow> main argc argv w = Inl Null_pointer_write"
    and "e0 \<le> 0 \<Longrightarrow> e2 \<le> 0 \<Longrightarrow> e4 \<le> 0 \<Longrightarrow> 0 \<le> e1 \<Longrightarrow> 0 \<le> e3 \<Longrightarrow> 0 \<le> e5
           \<Longrightarrow> (e0, e2, e4) \<noteq> (0, 0, 0)
           \<Longrightarrow> main argc argv w
               = Inl (Out_of_bounds_write (nat ((e1 - e0 + 1) * (e3 - e2 + 1) * (e5 - e4 + 1))))"
proof -
  let ?dx = "e1 - e0 + 1" and ?dy = "e3 - e2 + 1" and ?dz = "e5 - e4 + 1"
  let ?m = "create_mask (Spacing vol) (?dx, ?dy, ?dz) (Extent vol) (uninitialised w)"
  let ?cyl = "\<lparr>Center = volume_center (Origin vol) (Spacing vol) (Extent vol),
               Radius = mask_radius (?dx, ?dy, ?dz)\<rparr>"
  let ?st0 = "\<lparr>ptr = GetScalarPointer (0, 0, 0) ?m, bytes = Scalars ?m, evaluated = [],
               stored = [], log = []\<rparr>"
  have dims: "GetDimensions vol = (?dx, ?dy, ?dz)"
    by (simp add: GetDimensions_def ext)
  have dpos: "0 < ?dx" "0 < ?dy" "0 < ?dz" using pos by simp_all
  then have ne: "voxels ?dx ?dy ?dz \<noteq> []"
    by (simp add: voxels_empty_iff)
  have e: "Extent ?m = (e0, e1, e2, e3, e4, e5)" by (simp add: create_mask_fields ext)
  have c: "NumberOfScalarComponents ?m = 1" by (simp add: create_mask_fields)
  have len: "length (bytes ?st0) = nat (?dx * ?dy * ?dz)"
    by (simp add: ext create_mask_Scalars)
  have unfold: "main argc argv w =
      (case for_each (voxels ?dx ?dy ?dz) (\<lambda>(z, y, x). mask_voxel (EvaluateFunction ?cyl) x y z) ?st0 of
         Inl e \<Rightarrow> Inl e
       | Inr st \<Rightarrow> Inr \<lparr>exit_code = EXIT_SUCCESS,
             trace = load_calls @ mask_calls @ log st @ chain_calls
                     @ mapper_calls @ renderer_calls @ event_loop_calls,
             volume_data = vol, mask_data = ?m\<lparr>Scalars := bytes st\<rparr>, mask_cylinder = ?cyl,
             mask_evaluated = evaluated st, mask_stored = stored st\<rparr>)"
    unfolding main_def Let_def vol dims fill_mask_flat ..
  show "main argc argv w = Inl Null_pointer_write"
    if "0 < e0 \<or> 0 < e2 \<or> 0 < e4 \<or> e1 < 0 \<or> e3 < 0 \<or> e5 < 0"
  proof -
    have "ptr ?st0 = None"
      using that by (auto simp: GetScalarPointer_unfold [OF e c])
    from for_each_null [OF this ne] show ?thesis
      by (simp only: unfold sum.case)
  qed
  show "main argc argv w = Inl (Out_of_bounds_write (nat (?dx * ?dy * ?dz)))"
    if "e0 \<le> 0" "e2 \<le> 0" "e4 \<le> 0" "0 \<le> e1" "0 \<le> e3" "0 \<le> e5" "(e0, e2, e4) \<noteq> (0, 0, 0)"
  proof -
    let ?off = "(0 - e0) + (0 - e2) * ?dx + (0 - e4) * ?dx * ?dy"
    have p: "ptr ?st0 = Some (nat ?off)"
      using that by (simp add: GetScalarPointer_unfold [OF e c])
    have a: "0 \<le> (0 - e2) * ?dx" using that dpos by (intro mult_nonneg_nonneg) auto
    have b: "0 \<le> (0 - e4) * ?dx * ?dy" using that dpos by (intro mult_nonneg_nonneg) auto
    have "0 < ?off"
    proof (rule ccontr)
      assume "\<not> 0 < ?off"
      with a b that have "e0 = 0" "(0 - e2) * ?dx = 0" "(0 - e4) * ?dx * ?dy = 0"
        by linarith+
      with dpos that(7) show False by auto
    qed
    then have gt: "0 < nat ?off" by simp
    have inb: "nat ?off \<le> length (bytes ?st0)"
    proof -
      have x: "0 - e0 \<le> ?dx - 1" using that by simp
      have y: "(0 - e2) * ?dx \<le> (?dy - 1) * ?dx"
        using that dpos by (intro mult_right_mono) auto
      have z: "(0 - e4) * (?dx * ?dy) \<le> (?dz - 1) * (?dx * ?dy)"
        using that dpos by (intro mult_right_mono) auto
      have "?off \<le> (?dx - 1) + (?dy - 1) * ?dx + (?dz - 1) * (?dx * ?dy)"
        using x y z by (simp add: mult.assoc)
      also have "\<dots> = ?dx * ?dy * ?dz - 1" by (simp add: algebra_simps)
      finally have "nat ?off \<le> nat (?dx * ?dy * ?dz)" by linarith
      then show ?thesis by (simp only: len)
    qed
    have over: "length (bytes ?st0) < nat ?off + length (voxels ?dx ?dy ?dz)"
      using gt by (simp only: len length_voxels_product [OF dpos])
    from for_each_overrun [OF p inb over] show ?thesis
      by (simp only: unfold sum.case len)
  qed
qed

lemma writes_of_returning_run:
  assumes "main argc argv w = Inr r"
    and "GetDimensions (volume_data r) = (dx, dy, dz)"
    and "0 \<le> dx" "0 \<le> dy" "0 \<le> dz"
  shows "mask_stored r = [0..<nat (dx * dy * dz)]"
    and "length (Scalars (mask_data r)) = nat (dx * dy * dz)"
proof -
  have "length (voxels dx dy dz) = nat (dx * dy * dz)"
    using assms(3-5) by (simp add: length_voxels nat_mult_distrib ac_simps)
  then show "mask_stored r = [0..<nat (dx * dy * dz)]"
    by (simp add: main_run_facts(5) [OF assms(1,2)])
  show "length (Scalars (mask_data r)) = nat (dx * dy * dz)"
    using main_run_facts(7) [OF assms(1,2)] by simp
qed

lemma main_exit_code: "main argc argv w = Inr r \<Longrightarrow> exit_code r = EXIT_SUCCESS"
  unfolding main_def Let_def by (auto split: sum.splits)

lemma filter_is_Call_calls_on: "filter is_Call (calls_on obj ms) = calls_on obj ms"
  by (induction ms) (simp_all add: calls_on_def)

lemma filter_is_Call_loop_events: "filter is_Call (loop_events f p vs) = []"
  by (induction vs arbitrary: p) (simp_all add: loop_events_Cons, simp add: loop_events_def)

lemma missing_file_run:
  "\<exists>r. main argc argv (world_with None) = Inr r"
  by (rule main_returns [where vol = vtkNew_vtkImageData and dx = 0 and dy = 0 and dz = 0])
     (simp_all add: read_world_with vtkNew_vtkImageData_def GetDimensions_def voxels_empty_iff)

lemma remdups_adj_block:
  "remdups_adj (a # replicate n a @ ys) = remdups_adj (a # ys)"
  by (induction n) simp_all

lemma phase_of_loop_events:
  "map phase_of (loop_events f p vs) = replicate (2 * length vs) Compute_mask"
proof (induction vs arbitrary: p)
  case Nil
  show ?case by (simp add: loop_events_def)
next
  case (Cons v vs)
  then show ?case by (simp add: loop_events_Cons)
qed

lemma phases_of_calls:
  "map phase_of load_calls = replicate 6 Load_file"
  "map phase_of mask_calls = replicate 8 Compute_mask"
  "map phase_of chain_calls = replicate 18 Configure_filter_chain"
  "map phase_of mapper_calls = replicate 18 Configure_mapper"
  "map phase_of renderer_calls = replicate 20 Configure_renderers"
  "map phase_of event_loop_calls = [Run_event_loop]"
  by (simp_all add: load_calls_def mask_calls_def chain_calls_def mapper_calls_def
      renderer_calls_def event_loop_calls_def calls_on_def phase_of_object_def
      numeral_eq_Suc)

lemma filter_is_Call_calls:
  "filter is_Call load_calls = load_calls"
  "filter is_Call mask_calls = mask_calls"
  "filter is_Call chain_calls = chain_calls"
  "filter is_Call mapper_calls = mapper_calls"
  "filter is_Call renderer_calls = renderer_calls"
  "filter is_Call event_loop_calls = event_loop_calls"
  by (simp_all add: load_calls_def mask_calls_def chain_calls_def mapper_calls_def
      renderer_calls_def event_loop_calls_def filter_is_Call_calls_on)

lemma filter_is_Store_calls:
  "filter is_Store load_calls = []"
  "filter is_Store mask_calls = []"
  "filter is_Store chain_calls = []"
  "filter is_Store mapper_calls = []"
  "filter is_Store renderer_calls = []"
  "filter is_Store event_loop_calls = []"
  by (simp_all add: load_calls_def mask_calls_def chain_calls_def mapper_calls_def
      renderer_calls_def event_loop_calls_def calls_on_def)

lemma filter_is_Store_loop_events:
  "filter is_Store (loop_events f p vs)
     = map (\<lambda>(k, v). Store k (voxel_value f v)) (zip [p..<p + length vs] vs)"
proof (induction vs arbitrary: p)
  case Nil
  show ?case by (simp add: loop_events_def)
next
  case (Cons v vs)
  have "[p..<p + length (v # vs)] = p # [p + 1..<p + 1 + length vs]"
    using upt_conv_Cons [of p "p + 1 + length vs"] by simp
  with Cons [of "p + 1"] show ?case by (simp add: loop_events_Cons)
qed

lemma stores_of_values:
  "map (\<lambda>(k, v). Store k (g v)) (zip [0..<length vs] vs)
     = map (\<lambda>k. Store k (map g vs ! k)) [0..<length vs]"
  by (rule nth_equalityI) auto

lemma getters_in_calls:
  "list_all (\<lambda>e. list_all (\<lambda>(obj, m). m \<in> set getters) (argument_calls e)) load_calls"
  "list_all (\<lambda>e. list_all (\<lambda>(obj, m). m \<in> set getters) (argument_calls e)) mask_calls"
  "list_all (\<lambda>e. list_all (\<lambda>(obj, m). m \<in> set getters) (argument_calls e)) chain_calls"
  "list_all (\<lambda>e. list_all (\<lambda>(obj, m). m \<in> set getters) (argument_calls e)) mapper_calls"
  "list_all (\<lambda>e. list_all (\<lambda>(obj, m). m \<in> set getters) (argument_calls e)) renderer_calls"
  "list_all (\<lambda>e. list_all (\<lambda>(obj, m). m \<in> set getters) (argument_calls e)) event_loop_calls"
  by (simp_all add: load_calls_def mask_calls_def chain_calls_def mapper_calls_def
      renderer_calls_def event_loop_calls_def calls_on_def getters_def numeral_eq_Suc)

lemma getters_in_loop_events:
  "list_all (\<lambda>e. list_all (\<lambda>(obj, m). m \<in> set getters) (argument_calls e))
     (loop_events f p vs)"
proof (induction vs arbitrary: p)
  case Nil
  show ?case by (simp add: loop_events_def)
next
  case (Cons v vs)
  then show ?case by (simp add: loop_events_Cons)
qed

section \<open>The claims\<close>

text \<open>
  C3. In a run that returns, take any voxel \<open>(x, y, z)\<close> of the grid and the point \<open>p\<close> at
  which the loop evaluated the cylinder's implicit function for it. If the function is exactly
  \<open>0\<close> at \<open>p\<close> (the point is on the surface), the voxel's mask value is 255; the value is
  255 exactly when the function is at most \<open>0\<close> (inside or on), and 0 exactly when it is
  positive (strictly outside).
\<close>

theorem surface_voxel_gets_255:
  assumes "main argc argv w = Inr r"
    and "GetDimensions (volume_data r) = (dx, dy, dz)"
    and "0 \<le> x" "x < dx" "0 \<le> y" "y < dy" "0 \<le> z" "z < dz"
    and "p = mask_evaluated r ! nat (x + y * dx + z * dx * dy)"
  shows "(EvaluateFunction (mask_cylinder r) p = 0 \<longrightarrow> voxel_at (mask_data r) (x, y, z) = Some 255)
       \<and> (EvaluateFunction (mask_cylinder r) p \<le> 0 \<longleftrightarrow> voxel_at (mask_data r) (x, y, z) = Some 255)
       \<and> (EvaluateFunction (mask_cylinder r) p > 0 \<longleftrightarrow> voxel_at (mask_data r) (x, y, z) = Some 0)"
proof -
  have "p = voxel_point (z, y, x)"
    using voxel_index_less [OF assms(3-8)]
    by (simp add: assms(9) main_run_facts(4) [OF assms(1,2)] nth_voxels_int [OF assms(3-8)])
  then show ?thesis
    by (simp add: mask_voxel_at(2) [OF assms(1-8)] voxel_value_def)
qed

text \<open>
  The run on the two voxels of \<open>pair_volume\<close>: the function is positive at the first and
  exactly 0 at the second.
\<close>

theorem surface_voxel_gets_255_witness:
  "\<exists>r. main 1 [''VolumeMaskAndSlice''] (world_with (Some pair_volume)) = Inr r
     \<and> EvaluateFunction (mask_cylinder r) (mask_evaluated r ! 1) = 0
     \<and> voxel_at (mask_data r) (1, 0, 0) = Some 255
     \<and> voxel_at (mask_data r) (0, 0, 0) = Some 0"
proof -
  from pair_volume_run obtain r where
    run: "main 1 [''VolumeMaskAndSlice''] (world_with (Some pair_volume)) = Inr r" by blast
  have vol: "volume_data r = pair_volume"
    by (simp add: main_volume_data [OF run] read_world_with)
  have dims: "GetDimensions (volume_data r) = (2, 1, 1)"
    by (simp add: vol pair_volume_def GetDimensions_volume_of)
  have cyl: "mask_cylinder r = \<lparr>Center = (50, 0, 0), Radius = - 49\<rparr>"
    by (simp add: main_run_facts(3) [OF run dims] vol pair_volume_def volume_of_fields
        volume_center_def mask_radius_def)
  have ev: "mask_evaluated r = [(0, 0, 0), (1, 0, 0)]"
    by (simp add: main_run_facts(4) [OF run dims] voxels_def below_def voxel_point_def upto.simps)
  have zero: "EvaluateFunction (mask_cylinder r) (mask_evaluated r ! 1) = 0"
    by (simp add: cyl ev EvaluateFunction_def)
  have pos: "EvaluateFunction (mask_cylinder r) (mask_evaluated r ! 0) > 0"
    by (simp add: cyl ev EvaluateFunction_def)
  from surface_voxel_gets_255 [OF run dims, of 1 0 0 "mask_evaluated r ! 1"] zero
  have "voxel_at (mask_data r) (1, 0, 0) = Some 255" by simp
  moreover from surface_voxel_gets_255 [OF run dims, of 0 0 0 "mask_evaluated r ! 0"] pos
  have "voxel_at (mask_data r) (0, 0, 0) = Some 0" by simp
  ultimately show ?thesis using run zero by blast
qed

text \<open>
  C5. In a run that returns, the evaluation the loop makes for the voxel with index triple
  \<open>(x, y, z)\<close> is at the point \<open>(x, z, y)\<close>: the three loop counters as they are, the second
  and third swapped, whatever the origin and the spacing of the volume. The byte stored in
  that iteration is the voxel's own, and it is decided by the function's sign at that point.
  The voxel's physical location is \<open>origin + spacing * index\<close>, and the cylinder's center is
  \<open>origin[i] + spacing[i] * 0.5 * (extent[2i] + extent[2i+1])\<close>, in physical coordinates.
\<close>

theorem evaluated_at_swapped_index_point:
  assumes "main argc argv w = Inr r"
    and "GetDimensions (volume_data r) = (dx, dy, dz)"
    and "0 \<le> x" "x < dx" "0 \<le> y" "y < dy" "0 \<le> z" "z < dz"
    and "Origin (volume_data r) = (o0, o1, o2)"
    and "Spacing (volume_data r) = (s0, s1, s2)"
    and "Extent (volume_data r) = (e0, e1, e2, e3, e4, e5)"
  shows "mask_evaluated r ! nat (x + y * dx + z * dx * dy) = (of_int x, of_int z, of_int y)
       \<and> mask_stored r ! nat (x + y * dx + z * dx * dy) = nat (x + y * dx + z * dx * dy)
       \<and> GetScalarPointer (x, y, z) (mask_data r) = Some (nat (x + y * dx + z * dx * dy))
       \<and> voxel_at (mask_data r) (x, y, z)
           = Some (if EvaluateFunction (mask_cylinder r) (of_int x, of_int z, of_int y) > 0
                   then 0 else 255)
       \<and> GetPoint (volume_data r) (x, y, z)
           = (o0 + s0 * of_int x, o1 + s1 * of_int y, o2 + s2 * of_int z)
       \<and> Center (mask_cylinder r)
           = (o0 + s0 * 0.5 * of_int (e0 + e1), o1 + s1 * 0.5 * of_int (e2 + e3),
              o2 + s2 * 0.5 * of_int (e4 + e5))"
proof -
  note range = assms(3-8)
  let ?k = "nat (x + y * dx + z * dx * dy)"
  have lt: "?k < length (voxels dx dy dz)"
    by (rule voxel_index_less [OF range])
  have "mask_evaluated r ! ?k = (of_int x, of_int z, of_int y)"
    using lt
    by (simp add: main_run_facts(4) [OF assms(1,2)] nth_voxels_int [OF range] voxel_point_def)
  moreover have "mask_stored r ! ?k = ?k"
    using lt by (simp add: main_run_facts(5) [OF assms(1,2)])
  moreover note mask_voxel_at(1) [OF assms(1,2) range]
  moreover have "voxel_at (mask_data r) (x, y, z)
           = Some (if EvaluateFunction (mask_cylinder r) (of_int x, of_int z, of_int y) > 0
                   then 0 else 255)"
    by (simp add: mask_voxel_at(2) [OF assms(1,2) range] voxel_value_def voxel_point_def)
  moreover have "GetPoint (volume_data r) (x, y, z)
           = (o0 + s0 * of_int x, o1 + s1 * of_int y, o2 + s2 * of_int z)"
    by (simp add: GetPoint_def assms(9,10))
  moreover have "Center (mask_cylinder r)
           = (o0 + s0 * 0.5 * of_int (e0 + e1), o1 + s1 * 0.5 * of_int (e2 + e3),
              o2 + s2 * 0.5 * of_int (e4 + e5))"
    by (simp add: main_run_facts(3) [OF assms(1,2)] assms(9-11) volume_center_def)
  ultimately show ?thesis by blast
qed

theorem evaluated_at_swapped_index_point_witness:
  "\<exists>r. main 1 [''VolumeMaskAndSlice''] (world_with (Some pair_volume)) = Inr r
     \<and> mask_evaluated r ! 1 = (1, 0, 0)
     \<and> GetPoint (volume_data r) (1, 0, 0) = (50.5, 0, 0)
     \<and> Center (mask_cylinder r) = (50, 0, 0)
     \<and> voxel_at (mask_data r) (1, 0, 0) = Some 255"
proof -
  obtain r where run: "main 1 [''VolumeMaskAndSlice''] (world_with (Some pair_volume)) = Inr r"
    and vol: "volume_data r = pair_volume"
    and dims: "GetDimensions (volume_data r) = (2, 1, 1)"
    and cyl: "mask_cylinder r = \<lparr>Center = (50, 0, 0), Radius = - 49\<rparr>"
    by (rule pair_volume_facts)
  have "Origin (volume_data r) = (49.5, 0, 0)" "Spacing (volume_data r) = (1, 1, 1)"
    "Extent (volume_data r) = (0, 1, 0, 0, 0, 0)"
    by (simp_all add: vol pair_volume_def volume_of_fields)
  from evaluated_at_swapped_index_point [OF run dims _ _ _ _ _ _ this, of 1 0 0]
  show ?thesis using run by (simp add: cyl EvaluateFunction_def)
qed

text \<open>
  C4. In a run that returns, the mask has the dimensions, the extent and the spacing of the
  volume that was read; its scalars are of type \<^verbatim>\<open>VTK_UNSIGNED_CHAR\<close> with one component,
  one byte for each point of the volume.
\<close>

theorem mask_same_shape_as_volume:
  assumes "main argc argv w = Inr r"
  shows "GetDimensions (mask_data r) = GetDimensions (volume_data r)
       \<and> Extent (mask_data r) = Extent (volume_data r)
       \<and> Spacing (mask_data r) = Spacing (volume_data r)
       \<and> ScalarType (mask_data r) = VTK_UNSIGNED_CHAR
       \<and> NumberOfScalarComponents (mask_data r) = 1
       \<and> length (Scalars (mask_data r)) = NumberOfPoints (volume_data r)"
proof -
  obtain dx dy dz where dims: "GetDimensions (volume_data r) = (dx, dy, dz)"
    by (metis prod_cases3)
  note f = main_run_facts(7) [OF assms dims]
  then have "GetDimensions (mask_data r) = GetDimensions (volume_data r)"
    by (simp add: GetDimensions_def)
  moreover have "length (Scalars (mask_data r)) = NumberOfPoints (volume_data r)"
    using f by (simp add: NumberOfPoints_def dims)
  ultimately show ?thesis using f by simp
qed

theorem mask_same_shape_as_volume_witness:
  "\<exists>r. main 1 [''VolumeMaskAndSlice''] (world_with (Some pair_volume)) = Inr r
     \<and> GetDimensions (mask_data r) = (2, 1, 1)
     \<and> Extent (mask_data r) = (0, 1, 0, 0, 0, 0)
     \<and> Spacing (mask_data r) = (1, 1, 1)
     \<and> ScalarType (mask_data r) = VTK_UNSIGNED_CHAR
     \<and> NumberOfScalarComponents (mask_data r) = 1
     \<and> length (Scalars (mask_data r)) = 2"
proof -
  obtain r where run: "main 1 [''VolumeMaskAndSlice''] (world_with (Some pair_volume)) = Inr r"
    and vol: "volume_data r = pair_volume"
    and dims: "GetDimensions (volume_data r) = (2, 1, 1)"
    by (rule pair_volume_facts)
  from mask_same_shape_as_volume [OF run] show ?thesis
    using run dims
    by (simp add: vol pair_volume_def volume_of_fields NumberOfPoints_def GetDimensions_volume_of)
qed

text \<open>
  C6. In a run that returns, the origin of the mask is \<open>(extent[0], extent[2], extent[4])\<close>.
  When the volume's origin is another triple, the two origins differ, and no point of the
  mask has the physical position of the volume's point with the same structured coordinates.
\<close>

theorem mask_origin_is_extent_minimum:
  assumes "main argc argv w = Inr r"
    and "Extent (volume_data r) = (e0, e1, e2, e3, e4, e5)"
  shows "Origin (mask_data r) = (of_int e0, of_int e2, of_int e4)
       \<and> (Origin (volume_data r) \<noteq> (of_int e0, of_int e2, of_int e4)
            \<longrightarrow> Origin (mask_data r) \<noteq> Origin (volume_data r)
              \<and> (\<forall>c. GetPoint (mask_data r) c \<noteq> GetPoint (volume_data r) c))"
proof -
  obtain dx dy dz where dims: "GetDimensions (volume_data r) = (dx, dy, dz)"
    by (metis prod_cases3)
  note f = main_run_facts(7) [OF assms(1) dims]
  have org: "Origin (mask_data r) = (of_int e0, of_int e2, of_int e4)"
    using f by (simp add: assms(2))
  obtain a b c where ov: "Origin (volume_data r) = (a, b, c)" by (metis prod_cases3)
  obtain s0 s1 s2 where sp: "Spacing (volume_data r) = (s0, s1, s2)" by (metis prod_cases3)
  have sm: "Spacing (mask_data r) = (s0, s1, s2)" using f sp by simp
  have "GetPoint (mask_data r) c \<noteq> GetPoint (volume_data r) c"
    if "Origin (volume_data r) \<noteq> (of_int e0, of_int e2, of_int e4)" for c
    using that by (auto simp: GetPoint_def org ov sp sm)
  then show ?thesis using org by auto
qed

theorem mask_origin_is_extent_minimum_witness:
  "\<exists>r. main 1 [''VolumeMaskAndSlice''] (world_with (Some pair_volume)) = Inr r
     \<and> Origin (volume_data r) = (49.5, 0, 0)
     \<and> Origin (mask_data r) = (0, 0, 0)
     \<and> GetPoint (mask_data r) (0, 0, 0) \<noteq> GetPoint (volume_data r) (0, 0, 0)"
proof -
  obtain r where run: "main 1 [''VolumeMaskAndSlice''] (world_with (Some pair_volume)) = Inr r"
    and vol: "volume_data r = pair_volume"
    by (rule pair_volume_facts)
  have ext: "Extent (volume_data r) = (0, 1, 0, 0, 0, 0)"
    and org: "Origin (volume_data r) = (49.5, 0, 0)"
    by (simp_all add: vol pair_volume_def volume_of_fields)
  from mask_origin_is_extent_minimum [OF run ext] org
  have "Origin (mask_data r) = (0, 0, 0)"
    and "GetPoint (mask_data r) (0, 0, 0) \<noteq> GetPoint (volume_data r) (0, 0, 0)"
    by simp_all
  with run org show ?thesis by blast
qed

text \<open>
  C1. The claim is that a voxel within the cylinder's radius of the cylinder's center gets
  255. The program run on \<open>slab_volume\<close> (\<open>102 \<times> 1 \<times> 102\<close> voxels, origin 0, spacing 1, so
  that index and physical coordinates agree): the cylinder has center \<open>(50.5, 0, 50.5)\<close> and
  radius 1, the voxel \<open>(50, 0, 50)\<close> lies at \<open>(50, 0, 50)\<close>, within the radius, and its mask
  value is 0. The loop evaluates the function at \<open>(50, 50, 0)\<close> instead.
\<close>

theorem voxel_within_radius_gets_0:
  "\<exists>r. main 1 [''VolumeMaskAndSlice''] (world_with (Some slab_volume)) = Inr r
     \<and> Center (mask_cylinder r) = (50.5, 0, 50.5)
     \<and> Radius (mask_cylinder r) = 1
     \<and> GetPoint (volume_data r) (50, 0, 50) = (50, 0, 50)
     \<and> GetPoint (mask_data r) (50, 0, 50) = (50, 0, 50)
     \<and> within_radius (mask_cylinder r) (GetPoint (volume_data r) (50, 0, 50))
     \<and> voxel_at (mask_data r) (50, 0, 50) = Some 0"
proof -
  have "\<exists>r. main 1 [''VolumeMaskAndSlice''] (world_with (Some slab_volume)) = Inr r"
    by (rule main_returns [where vol = slab_volume and dx = 102 and dy = 1 and dz = 102])
       (simp_all add: read_world_with slab_volume_def GetDimensions_volume_of volume_of_fields)
  then obtain r where
    run: "main 1 [''VolumeMaskAndSlice''] (world_with (Some slab_volume)) = Inr r" ..
  have vol: "volume_data r = slab_volume"
    by (simp add: main_volume_data [OF run] read_world_with)
  have dims: "GetDimensions (volume_data r) = (102, 1, 102)"
    by (simp add: vol slab_volume_def GetDimensions_volume_of)
  have cyl: "mask_cylinder r = \<lparr>Center = (50.5, 0, 50.5), Radius = 1\<rparr>"
    by (simp add: main_run_facts(3) [OF run dims] vol slab_volume_def volume_of_fields
        volume_center_def mask_radius_def)
  have pt: "GetPoint (volume_data r) (50, 0, 50) = (50, 0, 50)"
    by (simp add: GetPoint_def vol slab_volume_def volume_of_fields)
  have ext: "Extent (volume_data r) = (0, 101, 0, 0, 0, 101)"
    by (simp add: vol slab_volume_def volume_of_fields)
  have ptm: "GetPoint (mask_data r) (50, 0, 50) = (50, 0, 50)"
    using main_run_facts(7) [OF run dims]
    by (simp add: GetPoint_def ext vol slab_volume_def volume_of_fields)
  have inside: "within_radius (mask_cylinder r) (GetPoint (volume_data r) (50, 0, 50))"
    by (simp add: pt cyl within_radius_def EvaluateFunction_def)
  have "voxel_at (mask_data r) (50, 0, 50) = Some 0"
    using mask_voxel_at(2) [OF run dims, of 50 0 50]
    by (simp add: cyl voxel_value_def voxel_point_def EvaluateFunction_def)
  with run cyl pt ptm inside show ?thesis by simp
qed

text \<open>
  C7. The claim is that the loop writes one byte per voxel, \<open>dims[0]*dims[1]*dims[2]\<close> in
  all, each inside the mask's buffer. The program run on a row of two voxels whose extent is
  \<open>(-1, 0, 0, 0, 0, 0)\<close>: the buffer has two bytes, \<^verbatim>\<open>GetScalarPointer(0,0,0)\<close> is the
  second of them, and the second write of the loop is at offset 2, past the end. On the row
  with extent \<open>(1, 2, 0, 0, 0, 0)\<close> the pointer is null and the first write faults.
  For a volume whose extent starts at \<open>(0, 0, 0)\<close> the writes are at the offsets
  \<open>0, 1, ...\<close> in order, all in the buffer (\<open>writes_of_returning_run\<close>, \<open>main_returns_iff\<close>).
\<close>

theorem mask_writes_leave_buffer:
  "main 1 [''VolumeMaskAndSlice''] (world_with (Some (shifted_volume (- 1))))
     = Inl (Out_of_bounds_write 2)
   \<and> length (Scalars (create_mask (1, 1, 1) (2, 1, 1) (- 1, 0, 0, 0, 0, 0) (\<lambda>i. 0))) = 2
   \<and> GetScalarPointer (0, 0, 0) (create_mask (1, 1, 1) (2, 1, 1) (- 1, 0, 0, 0, 0, 0) (\<lambda>i. 0))
       = Some 1
   \<and> main 1 [''VolumeMaskAndSlice''] (world_with (Some (shifted_volume 1)))
       = Inl Null_pointer_write"
proof -
  have a: "main 1 [''VolumeMaskAndSlice''] (world_with (Some (shifted_volume (- 1))))
     = Inl (Out_of_bounds_write 2)"
    using main_fault(2) [where w = "world_with (Some (shifted_volume (- 1)))"
        and vol = "shifted_volume (- 1)" and ?e0.0 = "- 1" and ?e1.0 = 0 and ?e2.0 = 0
        and ?e3.0 = 0 and ?e4.0 = 0 and ?e5.0 = 0 and argc = 1
        and argv = "[''VolumeMaskAndSlice'']"]
    by (simp add: read_world_with shifted_volume_def volume_of_fields)
  have b: "main 1 [''VolumeMaskAndSlice''] (world_with (Some (shifted_volume 1)))
     = Inl Null_pointer_write"
    using main_fault(1) [where w = "world_with (Some (shifted_volume 1))"
        and vol = "shifted_volume 1" and ?e0.0 = 1 and ?e1.0 = 2 and ?e2.0 = 0
        and ?e3.0 = 0 and ?e4.0 = 0 and ?e5.0 = 0 and argc = 1
        and argv = "[''VolumeMaskAndSlice'']"]
    by (simp add: read_world_with shifted_volume_def volume_of_fields)
  have c: "length (Scalars (create_mask (1, 1, 1) (2, 1, 1) (- 1, 0, 0, 0, 0, 0) (\<lambda>i. 0))) = 2"
    by (simp add: create_mask_Scalars)
  have d: "GetScalarPointer (0, 0, 0)
             (create_mask (1, 1, 1) (2, 1, 1) (- 1, 0, 0, 0, 0, 0) (\<lambda>i. 0)) = Some 1"
    by (simp add: GetScalarPointer_unfold [where ?e0.0 = "- 1" and ?e1.0 = 0 and ?e2.0 = 0
          and ?e3.0 = 0 and ?e4.0 = 0 and ?e5.0 = 0] create_mask_fields)
  from a b c d show ?thesis by blast
qed

text \<open>
  C8. The result of \<^verbatim>\<open>main\<close> depends on the contents of the file \<^verbatim>\<open>Data/CTHead.vti\<close>
  alone: two runs on worlds that agree on this file (and on the content of fresh memory)
  give the same result, whatever the arguments, the environment and the other files are.
\<close>

theorem main_ignores_arguments_and_environment:
  assumes "file_system w1 ''Data/CTHead.vti'' = file_system w2 ''Data/CTHead.vti''"
    and "uninitialised w1 = uninitialised w2"
  shows "main argc1 argv1 w1 = main argc2 argv2 w2"
  using assms by (simp add: main_def reader_Update_def)

theorem main_ignores_arguments_and_environment_witness:
  "main 1 [''VolumeMaskAndSlice''] (world_with (Some pair_volume))
   = main 3 [''VolumeMaskAndSlice'', ''--file'', ''other.vti'']
       ((world_with (Some pair_volume))
          \<lparr>environ := [(''DISPLAY'', '':1''), (''VTK_DATA_ROOT'', ''/data'')],
           file_system := (file_system (world_with (Some pair_volume)))
                            (''other.vti'' := Some slab_volume)\<rparr>)"
  by (rule main_ignores_arguments_and_environment) (simp_all add: world_with_def)

text \<open>
  C9. A run that returns has exit code \<^verbatim>\<open>EXIT_SUCCESS\<close>, and it has made the same toolkit
  calls in the same order as every other run that returns: no call depends on what the
  reader or an earlier step produced.
\<close>

theorem main_returns_success_unchecked:
  assumes "main argc argv w = Inr r"
  shows "exit_code r = EXIT_SUCCESS
       \<and> filter is_Call (trace r)
           = load_calls @ mask_calls @ chain_calls @ mapper_calls @ renderer_calls
             @ event_loop_calls"
proof -
  obtain dx dy dz where dims: "GetDimensions (volume_data r) = (dx, dy, dz)"
    by (metis prod_cases3)
  show ?thesis
    by (simp add: main_exit_code [OF assms] main_run_facts(6) [OF assms dims]
        filter_is_Call_loop_events filter_is_Call_calls)
qed

text \<open>The file is missing: the run still goes through every call and returns 0.\<close>

theorem main_returns_success_unchecked_witness:
  "file_system (world_with None) ''Data/CTHead.vti'' = None
   \<and> (\<exists>r. main 1 [''VolumeMaskAndSlice''] (world_with None) = Inr r
        \<and> exit_code r = 0
        \<and> filter is_Call (trace r)
            = load_calls @ mask_calls @ chain_calls @ mapper_calls @ renderer_calls
              @ event_loop_calls)"
proof -
  from missing_file_run obtain r where
    run: "main 1 [''VolumeMaskAndSlice''] (world_with None) = Inr r" by blast
  from main_returns_success_unchecked [OF run] run show ?thesis
    by (auto simp: EXIT_SUCCESS_def world_with_def)
qed

text \<open>
  C10. In a run that returns, the steps of the log entries, one after the other and without
  repetitions, are: load the file, compute the mask, configure the filter chain, configure
  the mapper and the transfer functions, configure the renderers and the interactor, run
  the event loop; an entry of an earlier step comes before every entry of a later step. The
  run begins by setting the reader's file name and updating the reader, and ends by starting
  the event loop. The writes to the mask's buffer, all in the second step, are one write
  for each voxel, at the offsets \<open>0, 1, ...\<close> in order, of the byte the mask holds there
  when the later steps receive it, and they fill the buffer. The calls made in argument
  position only read: each is \<^verbatim>\<open>GetOutput\<close>, \<^verbatim>\<open>GetOutputPort\<close>, \<^verbatim>\<open>GetScalarType\<close> or
  \<^verbatim>\<open>GetMapper\<close>.
\<close>

theorem steps_in_fixed_order:
  assumes "main argc argv w = Inr r"
    and "GetDimensions (volume_data r) = (dx, dy, dz)"
  shows "remdups_adj (map phase_of (trace r))
           = [Load_file, Compute_mask, Configure_filter_chain, Configure_mapper,
              Configure_renderers, Run_event_loop]
       \<and> (\<forall>i j. i < length (trace r) \<and> j < length (trace r)
               \<and> phase_rank (phase_of (trace r ! i)) < phase_rank (phase_of (trace r ! j))
             \<longrightarrow> i < j)
       \<and> take 2 (trace r) = [Call reader ''SetFileName'' [], Call reader ''Update'' []]
       \<and> last (trace r) = Call iren ''Start'' []
       \<and> filter is_Store (trace r)
           = map (\<lambda>k. Store k (Scalars (mask_data r) ! k)) [0..<nat dx * nat dy * nat dz]
       \<and> (0 \<le> dx \<and> 0 \<le> dy \<and> 0 \<le> dz
             \<longrightarrow> length (Scalars (mask_data r)) = nat dx * nat dy * nat dz)
       \<and> list_all (\<lambda>e. list_all (\<lambda>(obj, m). m \<in> set getters) (argument_calls e)) (trace r)"
proof -
  let ?f = "EvaluateFunction (mask_cylinder r)"
  let ?vs = "voxels dx dy dz"
  note facts = main_run_facts [OF assms]
  have tr: "trace r = load_calls @ mask_calls @ loop_events ?f 0 ?vs @ chain_calls
                      @ mapper_calls @ renderer_calls @ event_loop_calls"
    by (rule facts(6))
  have n: "length ?vs = nat dx * nat dy * nat dz"
    by (simp add: length_voxels ac_simps)
  have t: "map phase_of (trace r)
        = replicate 6 Load_file @ replicate 8 Compute_mask
          @ replicate (2 * length ?vs) Compute_mask
          @ replicate 18 Configure_filter_chain @ replicate 18 Configure_mapper
          @ replicate 20 Configure_renderers @ [Run_event_loop]"
    by (simp only: tr map_append phases_of_calls phase_of_loop_events)
  have order: "remdups_adj (map phase_of (trace r))
           = [Load_file, Compute_mask, Configure_filter_chain, Configure_mapper,
              Configure_renderers, Run_event_loop]"
    unfolding t by (simp add: numeral_eq_Suc remdups_adj_block)
  have "sorted (map phase_rank (map phase_of (trace r)))"
    unfolding t by (simp add: sorted_append)
  then have sorted: "sorted (map (\<lambda>e. phase_rank (phase_of e)) (trace r))"
    by (simp add: comp_def)
  have before: "i < j"
    if "i < length (trace r)" "j < length (trace r)"
      "phase_rank (phase_of (trace r ! i)) < phase_rank (phase_of (trace r ! j))" for i j
  proof (rule ccontr)
    assume "\<not> i < j"
    then have "j \<le> i" by simp
    from sorted_nth_mono [OF sorted this] that(1)
    have "phase_rank (phase_of (trace r ! j)) \<le> phase_rank (phase_of (trace r ! i))"
      using that(2) by simp
    with that(3) show False by simp
  qed
  have first: "take 2 (trace r) = [Call reader ''SetFileName'' [], Call reader ''Update'' []]"
    by (simp add: tr load_calls_def calls_on_def)
  have final: "last (trace r) = Call iren ''Start'' []"
    by (simp add: tr event_loop_calls_def calls_on_def)
  have "filter is_Store (trace r)
        = map (\<lambda>(k, v). Store k (voxel_value ?f v)) (zip [0..<length ?vs] ?vs)"
    by (simp add: tr filter_is_Store_calls filter_is_Store_loop_events)
  also have "\<dots> = map (\<lambda>k. Store k (map (voxel_value ?f) ?vs ! k)) [0..<length ?vs]"
    by (rule stores_of_values)
  also have "\<dots> = map (\<lambda>k. Store k (Scalars (mask_data r) ! k)) [0..<length ?vs]"
  proof (cases "?vs = []")
    case True
    then show ?thesis by simp
  next
    case False
    from facts(9) [OF this] show ?thesis by simp
  qed
  finally have stores: "filter is_Store (trace r)
           = map (\<lambda>k. Store k (Scalars (mask_data r) ! k)) [0..<nat dx * nat dy * nat dz]"
    by (simp only: n)
  have full: "length (Scalars (mask_data r)) = nat dx * nat dy * nat dz"
    if "0 \<le> dx \<and> 0 \<le> dy \<and> 0 \<le> dz"
    using facts(7) that by (simp add: nat_mult_distrib)
  have reads: "list_all (\<lambda>e. list_all (\<lambda>(obj, m). m \<in> set getters) (argument_calls e)) (trace r)"
    by (simp only: tr list_all_append getters_in_calls getters_in_loop_events simp_thms)
  from order before first final stores full reads show ?thesis by blast
qed

text \<open>
  The run on the two voxels of \<open>pair_volume\<close>: the second write of the loop is entry 17 of
  the log, and entry 18 is the first statement on the reslice filter.
\<close>

theorem steps_in_fixed_order_witness:
  "\<exists>r. main 1 [''VolumeMaskAndSlice''] (world_with (Some pair_volume)) = Inr r
     \<and> remdups_adj (map phase_of (trace r))
           = [Load_file, Compute_mask, Configure_filter_chain, Configure_mapper,
              Configure_renderers, Run_event_loop]
     \<and> filter is_Store (trace r) = [Store 0 0, Store 1 255]
     \<and> Scalars (mask_data r) = [0, 255]
     \<and> trace r ! 17 = Store 1 255
     \<and> trace r ! 18 = Call reslice ''SetInputConnection'' [(reader, ''GetOutputPort'')]
     \<and> last (trace r) = Call iren ''Start'' []"
proof -
  obtain r where run: "main 1 [''VolumeMaskAndSlice''] (world_with (Some pair_volume)) = Inr r"
    and dims: "GetDimensions (volume_data r) = (2, 1, 1)"
    and cyl: "mask_cylinder r = \<lparr>Center = (50, 0, 0), Radius = - 49\<rparr>"
    by (rule pair_volume_facts)
  have vs: "voxels 2 1 1 = [(0, 0, 0), (0, 0, 1)]"
    by (simp add: voxels_def below_def upto.simps)
  have sc: "Scalars (mask_data r) = [0, 255]"
    by (simp add: main_run_facts(9) [OF run dims] vs cyl voxel_value_def voxel_point_def
        EvaluateFunction_def)
  have ev: "loop_events (EvaluateFunction (mask_cylinder r)) 0 (voxels 2 1 1)
        = [Evaluate (0, 0, 0), Store 0 0, Evaluate (1, 0, 0), Store 1 255]"
    by (simp add: vs loop_events_Cons cyl voxel_value_def voxel_point_def EvaluateFunction_def,
        simp add: loop_events_def)
  have at17: "trace r ! 17 = Store 1 255"
    and at18: "trace r ! 18 = Call reslice ''SetInputConnection'' [(reader, ''GetOutputPort'')]"
    by (simp_all add: main_run_facts(6) [OF run dims] ev load_calls_def mask_calls_def
        chain_calls_def calls_on_def nth_append)
  from steps_in_fixed_order [OF run dims] run sc at17 at18 show ?thesis
    by (simp add: numeral_eq_Suc)
qed

end
